theory Spec2Isabelle
  imports Complex_Main "HOL-Library.Sublist"
begin

section \<open>Values\<close>

text \<open>
  A JavaScript number is an IEEE 754 double. A stock level or a quantity (kilograms,
  litres) is carried as the real value of a finite double, and every arithmetic operation
  of the code is the exact operation followed by \<open>double\<close>, the rounding to the nearest
  number with a significand of 53 bits, a tie going to the even significand. The exponent
  is not bounded: magnitudes of \<open>2^1024\<close> and above, where JavaScript has \<open>Infinity\<close>,
  and below \<open>2^-1022\<close>, where doubles lose precision, are outside the model. Comparisons
  are exact. A number that a document or a request holds is a double (\<open>double x = x\<close>); a
  decimal literal such as \<open>0.1\<close> stands for the double nearest to it, \<open>double (1 / 10)\<close>.
  Head counts are naturals (exact as doubles up to \<open>2^53\<close>). An ObjectId is a number (it
  prints as 24 hexadecimal digits). A \<open>Date\<close> is its time value: milliseconds of local
  wall-clock time, in a zone where every calendar day has 86,400,000 of them. A string is
  the list of its characters, with codes below 256.
\<close>

type_synonym objectId = nat
type_synonym timestamp = int

subsection \<open>Doubles\<close>

definition roundHalfEven :: "real \<Rightarrow> int" where
  \<comment> \<open>the nearest integer, the even one of two that are equally near\<close>
  "roundHalfEven y =
     (let f = \<lfloor>y\<rfloor>
      in if y - of_int f < 1 / 2 then f
         else if 1 / 2 < y - of_int f then f + 1
         else if even f then f else f + 1)"

function roundPos :: "real \<Rightarrow> real" where
  \<comment> \<open>a positive real rounded to 53 significant bits: scaled by powers of two into
      \<open>[2^52, 2^53)\<close>, where the doubles are the integers, rounded there and scaled back\<close>
  "roundPos x =
     (if x \<le> 0 then 0
      else if 2 ^ 53 \<le> x then 2 * roundPos (x / 2)
      else if x < 2 ^ 52 then roundPos (2 * x) / 2
      else of_int (roundHalfEven x))"
  by pat_completeness auto

termination
proof (relation "measure (\<lambda>x. if 2 ^ 53 \<le> x then nat \<lfloor>x\<rfloor> else nat \<lfloor>2 ^ 53 / x\<rfloor>)")
  show "wf (measure (\<lambda>x::real. if 2 ^ 53 \<le> x then nat \<lfloor>x\<rfloor> else nat \<lfloor>2 ^ 53 / x\<rfloor>))"
    by simp
next
  fix x :: real
  assume a: "\<not> x \<le> 0" "2 ^ 53 \<le> x"
  show "(x / 2, x) \<in> measure (\<lambda>x. if 2 ^ 53 \<le> x then nat \<lfloor>x\<rfloor> else nat \<lfloor>2 ^ 53 / x\<rfloor>)"
  proof (cases "2 ^ 53 \<le> x / 2")
    case True
    from a have "x / 2 \<le> x - 1" by simp
    then have "\<lfloor>x / 2\<rfloor> \<le> \<lfloor>x - 1\<rfloor>" by (rule floor_mono)
    then have "\<lfloor>x / 2\<rfloor> < \<lfloor>x\<rfloor>" by simp
    moreover have "0 < \<lfloor>x\<rfloor>" using a by simp
    ultimately show ?thesis using True a by simp
  next
    case False
    define m where "m = \<lfloor>2 ^ 53 / (x / 2)\<rfloor>"
    define n where "n = \<lfloor>x\<rfloor>"
    have "2 ^ 53 / (x / 2) \<le> 2" using a by (simp add: field_simps)
    then have "m \<le> 2" unfolding m_def by (simp add: floor_le_iff)
    moreover have "9007199254740992 \<le> n" using a unfolding n_def by (simp add: le_floor_iff)
    ultimately have "nat m < nat n" by linarith
    then show ?thesis using False a(2) unfolding m_def n_def
      by (simp only: in_measure if_True if_False)
  qed
next
  fix x :: real
  assume a: "\<not> x \<le> 0" "\<not> 2 ^ 53 \<le> x" "x < 2 ^ 52"
  have two: "2 \<le> 2 ^ 53 / x" using a by (simp add: field_simps)
  then have "2 ^ 53 / x / 2 \<le> 2 ^ 53 / x - 1" by simp
  then have "\<lfloor>2 ^ 53 / x / 2\<rfloor> \<le> \<lfloor>2 ^ 53 / x - 1\<rfloor>" by (rule floor_mono)
  then have "\<lfloor>2 ^ 53 / x / 2\<rfloor> < \<lfloor>2 ^ 53 / x\<rfloor>" by simp
  moreover have "2 ^ 53 / (2 * x) = 2 ^ 53 / x / 2" by simp
  moreover have "0 < \<lfloor>2 ^ 53 / x\<rfloor>" using two by (simp add: floor_less_iff less_floor_iff)
  ultimately show "(2 * x, x) \<in> measure (\<lambda>x. if 2 ^ 53 \<le> x then nat \<lfloor>x\<rfloor> else nat \<lfloor>2 ^ 53 / x\<rfloor>)"
    using a by simp
qed

declare roundPos.simps [simp del]

definition double :: "real \<Rightarrow> real" where
  \<comment> \<open>the double nearest to a real\<close>
  "double x = (if x < 0 then - roundPos (- x) else roundPos x)"

subsection \<open>Dates\<close>

definition msPerDay :: int where
  "msPerDay = 86400000"

definition startOfDay :: "timestamp \<Rightarrow> timestamp" where
  \<comment> \<open>\<open>d.setHours(0, 0, 0, 0)\<close>\<close>
  "startOfDay t = t - t mod msPerDay"

definition endOfDay :: "timestamp \<Rightarrow> timestamp" where
  \<comment> \<open>\<open>d.setHours(23, 59, 59, 999)\<close>\<close>
  "endOfDay t = t - t mod msPerDay + (((23 * 60 + 59) * 60 + 59) * 1000 + 999)"

definition previousDay :: "timestamp \<Rightarrow> timestamp" where
  \<comment> \<open>\<open>d.setDate(d.getDate() - 1)\<close>\<close>
  "previousDay t = t - msPerDay"

definition getDay :: "timestamp \<Rightarrow> nat" where
  \<comment> \<open>\<open>d.getDay()\<close>: 0 is Sunday; day 0 of the time line was a Thursday.\<close>
  "getDay t = nat ((t div msPerDay + 4) mod 7)"

definition dayNames :: "string list" where
  "dayNames = [''Sunday'', ''Monday'', ''Tuesday'', ''Wednesday'', ''Thursday'',
               ''Friday'', ''Saturday'']"

definition calendarDay :: "timestamp \<Rightarrow> int" where
  \<comment> \<open>The number of the calendar day an instant falls on.\<close>
  "calendarDay t = t div msPerDay"

subsection \<open>Strings\<close>

definition digitChar :: "nat \<Rightarrow> char" where
  "digitChar d = ''0123456789abcdef'' ! d"

fun showNat :: "nat \<Rightarrow> string" where
  \<comment> \<open>\<open>`${n}`\<close> for a non-negative integer \<open>n\<close> (below \<open>10^21\<close>, where JavaScript
      switches to exponent notation).\<close>
  "showNat n = (if n < 10 then [digitChar n] else showNat (n div 10) @ [digitChar (n mod 10)])"

declare showNat.simps [simp del]

definition toFixed2 :: "real \<Rightarrow> string" where
  \<comment> \<open>\<open>x.toFixed(2)\<close> of the double with the value \<open>x\<close>: the integer \<open>n\<close> with
      \<open>n / 100\<close> nearest to \<open>x\<close> (the larger one on a tie), printed with two decimals;
      a negative \<open>x\<close> prints as \<open>-\<close> and \<open>-x\<close>. (For \<open>x\<close> of \<open>10^21\<close> and above
      JavaScript prints exponent notation.)\<close>
  "toFixed2 x =
     (let s = (if x < 0 then ''-'' else '''');
          y = (if x < 0 then - x else x);
          n = nat \<lfloor>y * 100 + 1 / 2\<rfloor>
      in s @ showNat (n div 100) @ ''.'' @ [digitChar (n mod 100 div 10), digitChar (n mod 10)])"

fun hexDigits :: "nat \<Rightarrow> nat \<Rightarrow> string" where
  "hexDigits 0 n = []"
| "hexDigits (Suc k) n = hexDigits k (n div 16) @ [digitChar (n mod 16)]"

definition idString :: "objectId \<Rightarrow> string" where
  \<comment> \<open>\<open>`${id}`\<close> for an ObjectId: 24 hexadecimal digits.\<close>
  "idString i = hexDigits 24 i"

fun join :: "string \<Rightarrow> string list \<Rightarrow> string" where
  \<comment> \<open>\<open>xs.join(sep)\<close>\<close>
  "join sep [] = []"
| "join sep [x] = x"
| "join sep (x # y # ys) = x @ sep @ join sep (y # ys)"

section \<open>The quantity to consume\<close>

definition quantityToConsume :: "real \<Rightarrow> nat \<Rightarrow> nat \<Rightarrow> real" where
  \<comment> \<open>\<open>(attendanceCount / forStudents) * baseQuantity\<close>, the expression both the scheduled
      job and the manual recording evaluate: a division and a multiplication of doubles.\<close>
  "quantityToConsume baseQuantity forStudents attendanceCount =
     double (double (real attendanceCount / real forStudents) * baseQuantity)"

section \<open>Documents and the store\<close>

text \<open>
  One record per collection, with the fields the operations below read or write
  (display-only fields such as an item's category or a plan's food names are left out).
  The schemas of meal plans, inventory items and usage records are among the sources;
  for users, students, attendance records, attendance sessions and notifications the
  fields are those the code reads and writes. The store holds each collection as the
  list of its documents, in insertion order, and the counter from which the next
  \<open>_id\<close> is taken.
\<close>

record mealPlanItem =
  inventoryItemId :: objectId
  quantity :: real
  forStudents :: "nat option"  \<comment> \<open>read by the job; the schema does not declare it\<close>

record mealPlan =
  day :: string
  breakfastInventory :: "mealPlanItem list"
  lunchInventory :: "mealPlanItem list"
  dinnerInventory :: "mealPlanItem list"

record attendanceRecord =
  record_id :: objectId
  student :: objectId
  status :: string
  remarks :: string

record attendanceSession =
  session_id :: objectId
  sessionType :: string
  attendanceRecords :: "objectId list"
  totalStudents :: nat
  presentCount :: nat
  absentCount :: nat
  markedBy :: objectId
  markedAt :: "timestamp option"  \<comment> \<open>absent on sessions older than the field\<close>
  session_notes :: string
  isCompleted :: bool

record inventoryItem =
  item_id :: objectId
  name :: string
  currentStock :: real
  unit :: string
  minimumStock :: real
  lastUpdated :: timestamp

record user =
  user_id :: objectId
  role :: string

record usageItem =
  usedItemId :: objectId  \<comment> \<open>\<open>inventoryItemId\<close> of a usage line\<close>
  recordedQuantity :: real
  recordedForStudents :: nat
  actualQuantityDeducted :: real

record inventoryUsage =
  date :: timestamp
  mealType :: string
  items :: "usageItem list"
  attendanceCount :: nat
  attendanceSessionId :: "objectId option"
  recordedBy :: objectId
  usageNotes :: string  \<comment> \<open>the field \<open>notes\<close>\<close>

record notification =
  recipient :: objectId  \<comment> \<open>the field \<open>user\<close>\<close>
  type :: string
  title :: string
  message :: string
  read :: bool
  createdAt :: timestamp

record store =
  mealPlans :: "mealPlan list"
  attendanceSessions :: "attendanceSession list"
  attendanceRecordDocs :: "attendanceRecord list"
  students :: "objectId list"
  inventoryItems :: "inventoryItem list"
  users :: "user list"
  inventoryUsages :: "inventoryUsage list"
  notifications :: "notification list"
  nextId :: objectId

subsection \<open>Queries\<close>

definition inDay :: "timestamp \<Rightarrow> timestamp option \<Rightarrow> bool" where
  \<comment> \<open>\<open>{ $gte: startOfDay, $lte: endOfDay }\<close> for the day of \<open>d\<close>\<close>
  "inDay d m = (case m of None \<Rightarrow> False | Some t \<Rightarrow> startOfDay d \<le> t \<and> t \<le> endOfDay d)"

definition findSession :: "store \<Rightarrow> string \<Rightarrow> timestamp \<Rightarrow> attendanceSession option" where
  \<comment> \<open>\<open>AttendanceSession.findOne({ sessionType, markedAt: { $gte, $lte } })\<close>\<close>
  "findSession st ty d =
     find (\<lambda>s. sessionType s = ty \<and> inDay d (markedAt s)) (attendanceSessions st)"

definition findMealPlan :: "store \<Rightarrow> string \<Rightarrow> mealPlan option" where
  \<comment> \<open>\<open>MealPlan.findOne({ day })\<close>\<close>
  "findMealPlan st dn = find (\<lambda>p. day p = dn) (mealPlans st)"

definition findById :: "store \<Rightarrow> objectId \<Rightarrow> inventoryItem option" where
  \<comment> \<open>\<open>InventoryItem.findById(id)\<close>\<close>
  "findById st i = find (\<lambda>it. item_id it = i) (inventoryItems st)"

definition usersWithRole :: "store \<Rightarrow> string list \<Rightarrow> user list" where
  \<comment> \<open>\<open>User.find({ role: { $in: roles } })\<close>\<close>
  "usersWithRole st rs = filter (\<lambda>u. role u \<in> set rs) (users st)"

definition saveItem :: "inventoryItem \<Rightarrow> store \<Rightarrow> store" where
  \<comment> \<open>\<open>doc.save()\<close> on a loaded item whose \<open>currentStock\<close> and \<open>lastUpdated\<close> were assigned:
      the stored document with that \<open>_id\<close> receives the two fields.\<close>
  "saveItem doc st =
     st\<lparr>inventoryItems :=
          map (\<lambda>it. if item_id it = item_id doc
                     then it\<lparr>currentStock := currentStock doc, lastUpdated := lastUpdated doc\<rparr>
                     else it)
              (inventoryItems st)\<rparr>"

subsection \<open>Schema validation of a usage record\<close>

definition isSpace :: "char \<Rightarrow> bool" where
  \<comment> \<open>the white space and line terminators of JavaScript among the characters below 256:
      tab, line feed, vertical tab, form feed, carriage return, space, no-break space\<close>
  "isSpace c = (c \<in> set [CHR 0x09, CHR 0x0A, CHR 0x0B, CHR 0x0C, CHR 0x0D, CHR 0x20, CHR 0xA0])"

definition trim :: "string \<Rightarrow> string" where
  \<comment> \<open>\<open>s.trim()\<close>, which the schema's \<open>trim: true\<close> applies\<close>
  "trim s = rev (dropWhile isSpace (rev (dropWhile isSpace s)))"

definition validUsageItem :: "usageItem \<Rightarrow> bool" where
  \<comment> \<open>\<open>recordedQuantity\<close> min 0, \<open>recordedForStudents\<close> enum [1, 10],
      \<open>actualQuantityDeducted\<close> min 0\<close>
  "validUsageItem l =
     (0 \<le> recordedQuantity l \<and> recordedForStudents l \<in> set [1, 10] \<and> 0 \<le> actualQuantityDeducted l)"

definition validUsage :: "inventoryUsage \<Rightarrow> bool" where
  \<comment> \<open>\<open>mealType\<close> enum, the validators of each line, \<open>notes\<close> maxlength 500\<close>
  "validUsage u =
     (mealType u \<in> set [''breakfast'', ''lunch'', ''dinner'']
      \<and> list_all validUsageItem (items u)
      \<and> length (usageNotes u) \<le> 500)"

definition createUsage :: "inventoryUsage \<Rightarrow> store \<Rightarrow> (inventoryUsage \<times> store) option" where
  \<comment> \<open>\<open>InventoryUsage.create(doc)\<close>: the stored document and the new store, \<open>None\<close> when
      validation throws.\<close>
  "createUsage u st =
     (let u' = u\<lparr>usageNotes := trim (usageNotes u)\<rparr>
      in if validUsage u' then Some (u', st\<lparr>inventoryUsages := inventoryUsages st @ [u']\<rparr>) else None)"

definition createNotification :: "notification \<Rightarrow> store \<Rightarrow> store" where
  \<comment> \<open>Modelled from the spec: the notification schema is not among the sources. The
      specification gives a notification its user, title, message, type, read flag and
      \<open>createdAt\<close>; \<open>Notification.create(doc)\<close> appends the document, and the callers'
      documents carry the instant of the call as \<open>createdAt\<close>.\<close>
  "createNotification n st = st\<lparr>notifications := notifications st @ [n]\<rparr>"

section \<open>Scheduled consumption\<close>

text \<open>
  A run is one function of the store, taken at one instant \<open>now\<close>. The store's calls
  succeed unless a schema validator rejects the document: saving a debited item always
  passes (its stock stays non-negative), creating a usage record is validated as above.
\<close>

definition getAttendanceCount :: "store \<Rightarrow> string \<Rightarrow> timestamp \<Rightarrow> nat option" where
  \<comment> \<open>\<open>presentCount || 0\<close> of the session found, \<open>null\<close> when there is none\<close>
  "getAttendanceCount st ty d =
     (case findSession st ty d of
        Some s \<Rightarrow> Some (if presentCount s \<noteq> 0 then presentCount s else 0)
      | None \<Rightarrow> None)"

definition attendanceDateFor :: "string \<Rightarrow> timestamp \<Rightarrow> timestamp" where
  \<comment> \<open>\<open>if (mealType === "breakfast" || mealType === "lunch")
        attendanceDate.setDate(attendanceDate.getDate() - 1)\<close>\<close>
  "attendanceDateFor mt d = (if mt = ''breakfast'' \<or> mt = ''lunch'' then previousDay d else d)"

definition insufficientStock :: "inventoryItem \<Rightarrow> real \<Rightarrow> string" where
  \<comment> \<open>the part of the message the job and the manual recording share\<close>
  "insufficientStock itm q =
     ''Insufficient stock for '' @ name itm @ ''. Available: '' @ toFixed2 (currentStock itm)
       @ '' '' @ unit itm @ '', Required: '' @ toFixed2 q @ '' '' @ unit itm"

definition forStudentsOf :: "mealPlanItem \<Rightarrow> nat" where
  \<comment> \<open>\<open>item.forStudents || 10\<close>\<close>
  "forStudentsOf item = (case forStudents item of None \<Rightarrow> 10 | Some k \<Rightarrow> if k = 0 then 10 else k)"

definition consumeItem ::
  "timestamp \<Rightarrow> string \<Rightarrow> nat \<Rightarrow> mealPlanItem
     \<Rightarrow> store \<times> string list \<times> usageItem list \<Rightarrow> store \<times> string list \<times> usageItem list" where
  \<comment> \<open>the body of \<open>for (const item of mealInventory)\<close>, on the store, \<open>errors\<close> and
      \<open>usageItems\<close> (\<open>consumptionUpdates\<close> only feeds the log)\<close>
  "consumeItem now mt count item acc =
     (case acc of (st, errors, usageItems) \<Rightarrow>
        (case findById st (inventoryItemId item) of
           None \<Rightarrow>
             (st,
              errors @ [mt @ '': Inventory item '' @ idString (inventoryItemId item) @ '' not found''],
              usageItems)
         | Some itm \<Rightarrow>
             (let baseQuantity = quantity item;
                  forStudents = forStudentsOf item;
                  q = quantityToConsume baseQuantity forStudents count
              in if currentStock itm < q
                 then (st,
                       errors @ [mt @ '': '' @ insufficientStock itm q
                                   @ '' (Attendance: '' @ showNat count @ '')''],
                       usageItems)
                 else (saveItem (itm\<lparr>currentStock := double (currentStock itm - q),
                                      lastUpdated := now\<rparr>) st,
                       errors,
                       usageItems @ [\<lparr>usedItemId = item_id itm, recordedQuantity = baseQuantity,
                                       recordedForStudents = forStudents,
                                       actualQuantityDeducted = q\<rparr>]))))"

fun consumeItems ::
  "timestamp \<Rightarrow> string \<Rightarrow> nat \<Rightarrow> mealPlanItem list
     \<Rightarrow> store \<times> string list \<times> usageItem list \<Rightarrow> store \<times> string list \<times> usageItem list" where
  "consumeItems now mt count [] acc = acc"
| "consumeItems now mt count (item # rest) acc =
     consumeItems now mt count rest (consumeItem now mt count item acc)"

definition mealInventoryOf :: "mealPlan \<Rightarrow> string \<Rightarrow> mealPlanItem list" where
  \<comment> \<open>\<open>mealType === "breakfast" ? mealPlan.breakfastInventory
        : mealType === "lunch" ? mealPlan.lunchInventory : mealPlan.dinnerInventory\<close>\<close>
  "mealInventoryOf plan mt =
     (if mt = ''breakfast'' then breakfastInventory plan
      else if mt = ''lunch'' then lunchInventory plan
      else dinnerInventory plan)"

definition notifyAdmins :: "timestamp \<Rightarrow> string \<Rightarrow> string \<Rightarrow> string list \<Rightarrow> store \<Rightarrow> store" where
  \<comment> \<open>\<open>for (const admin of adminUsers) await Notification.create({ ... })\<close>\<close>
  "notifyAdmins now mt dn errors st =
     foldl (\<lambda>s admin.
              createNotification
                \<lparr>recipient = user_id admin, type = ''alert'',
                 title = ''Inventory Consumption Error - '' @ mt @ '' ('' @ dn @ '')'',
                 message = ''Errors: '' @ join ''; '' errors,
                 read = False, createdAt = now\<rparr> s)
           st (usersWithRole st [''admin''])"

definition consumeInventoryForMeal :: "timestamp \<Rightarrow> string \<Rightarrow> timestamp \<Rightarrow> store \<Rightarrow> store" where
  \<comment> \<open>\<open>consumeInventoryForMeal(mealType, date)\<close> run at the instant \<open>now\<close>\<close>
  "consumeInventoryForMeal now mt d st =
     (let dn = dayNames ! getDay d in
      case findMealPlan st dn of
        None \<Rightarrow> st
      | Some plan \<Rightarrow>
          (let attendanceDate = attendanceDateFor mt d;
               attendanceSessionType = ''evening'' in
           case getAttendanceCount st attendanceSessionType attendanceDate of
             None \<Rightarrow> st
           | Some count \<Rightarrow>
               if count = 0 then st
               else
                 (let session = findSession st attendanceSessionType attendanceDate;
                      mealInventory = mealInventoryOf plan mt in
                  if mealInventory = [] then st
                  else
                    (case find (\<lambda>u. role u = ''admin'') (users st) of
                       None \<Rightarrow> st
                     | Some systemUser \<Rightarrow>
                         (case consumeItems now mt count mealInventory (st, [], []) of
                            (st1, errors, usageItems) \<Rightarrow>
                              (let st2 =
                                     (if usageItems \<noteq> []
                                      then (case createUsage
                                                   \<lparr>date = d, mealType = mt, items = usageItems,
                                                    attendanceCount = count,
                                                    attendanceSessionId = map_option session_id session,
                                                    recordedBy = user_id systemUser,
                                                    usageNotes = ''Automated deduction via cron job''\<rparr> st1 of
                                              Some (u, s) \<Rightarrow> s
                                            | None \<Rightarrow> st1)
                                      else st1)
                               in if errors \<noteq> [] then notifyAdmins now mt dn errors st2
                                  else st2))))))"

section \<open>Manual recording\<close>

datatype dateField = NoDate | InvalidDate | ValidDate timestamp
  \<comment> \<open>a \<open>date\<close> of a request body: missing, unparseable, or the time value parsed from it\<close>

datatype failure = HttpError nat string | ValidationError
  \<comment> \<open>\<open>res.status(code); throw new Error(message)\<close>, or the error a rejected \<open>create\<close>
      throws with no status set\<close>

record usageRequestItem =
  rq_inventoryItemId :: "objectId option"
  rq_recordedQuantity :: "real option"
  rq_recordedForStudents :: "nat option"

record usageRequest =
  rq_date :: dateField
  rq_mealType :: "string option"
  rq_items :: "usageRequestItem list option"  \<comment> \<open>\<open>None\<close>: missing or not an array\<close>
  rq_notes :: "string option"
  rq_user :: objectId  \<comment> \<open>\<open>req.user._id\<close>\<close>

definition getAttendanceForDate :: "store \<Rightarrow> timestamp \<Rightarrow> string \<Rightarrow> nat option" where
  \<comment> \<open>\<open>session ? session.presentCount : null\<close>\<close>
  "getAttendanceForDate st d ty = map_option presentCount (findSession st ty d)"

definition checkItem ::
  "store \<Rightarrow> nat \<Rightarrow> usageRequestItem
     \<Rightarrow> usageItem list \<times> (inventoryItem \<times> real) list \<times> string list
     \<Rightarrow> usageItem list \<times> (inventoryItem \<times> real) list \<times> string list" where
  \<comment> \<open>the body of \<open>for (const item of items)\<close>, on \<open>processedItems\<close>,
      \<open>inventoryUpdates\<close> and \<open>errors\<close>; it reads the store and writes nothing\<close>
  "checkItem st count item acc =
     (case acc of (processedItems, inventoryUpdates, errors) \<Rightarrow>
        (case (rq_inventoryItemId item, rq_recordedQuantity item, rq_recordedForStudents item) of
           (Some i, Some recQuantity, Some recForStudents) \<Rightarrow>
             if recForStudents = 0
             then (processedItems, inventoryUpdates,
                   errors @ [''Each item must have inventoryItemId, recordedQuantity, and recordedForStudents''])
             else if recForStudents \<notin> set [1, 10]
             then (processedItems, inventoryUpdates,
                   errors @ [''recordedForStudents must be either 1 or 10''])
             else
               (case findById st i of
                  None \<Rightarrow>
                    (processedItems, inventoryUpdates,
                     errors @ [''Inventory item '' @ idString i @ '' not found''])
                | Some itm \<Rightarrow>
                    (let actualQuantity = quantityToConsume recQuantity recForStudents count
                     in if currentStock itm < actualQuantity
                        then (processedItems, inventoryUpdates,
                              errors @ [insufficientStock itm actualQuantity])
                        else (processedItems @ [\<lparr>usedItemId = i, recordedQuantity = recQuantity,
                                                  recordedForStudents = recForStudents,
                                                  actualQuantityDeducted = actualQuantity\<rparr>],
                              inventoryUpdates @ [(itm, actualQuantity)],
                              errors)))
         | _ \<Rightarrow>
             (processedItems, inventoryUpdates,
              errors @ [''Each item must have inventoryItemId, recordedQuantity, and recordedForStudents''])))"

fun checkItems ::
  "store \<Rightarrow> nat \<Rightarrow> usageRequestItem list
     \<Rightarrow> usageItem list \<times> (inventoryItem \<times> real) list \<times> string list
     \<Rightarrow> usageItem list \<times> (inventoryItem \<times> real) list \<times> string list" where
  "checkItems st count [] acc = acc"
| "checkItems st count (item # rest) acc = checkItems st count rest (checkItem st count item acc)"

definition deduct :: "timestamp \<Rightarrow> inventoryItem \<times> real \<Rightarrow> store \<Rightarrow> store" where
  \<comment> \<open>the body of \<open>for (const update of inventoryUpdates)\<close>: the item loaded during the
      checks is debited and saved\<close>
  "deduct now update st =
     (case update of (itm, quantityToDeduct) \<Rightarrow>
        saveItem (itm\<lparr>currentStock := double (currentStock itm - quantityToDeduct),
                      lastUpdated := now\<rparr>) st)"

fun deductAll :: "timestamp \<Rightarrow> (inventoryItem \<times> real) list \<Rightarrow> store \<Rightarrow> store" where
  "deductAll now [] st = st"
| "deductAll now (update # rest) st = deductAll now rest (deduct now update st)"

definition invalidMealType :: string where
  "invalidMealType =
     ''Invalid meal type. Must be 'breakfast', 'lunch', or 'dinner'' @ [CHR 0x27]"

definition recordInventoryUsage ::
  "(timestamp \<Rightarrow> string) \<Rightarrow> timestamp \<Rightarrow> usageRequest \<Rightarrow> store \<Rightarrow> (failure + inventoryUsage) \<times> store" where
  \<comment> \<open>\<open>POST /api/inventory-usage\<close> handled at the instant \<open>now\<close>; \<open>toLocaleDateString\<close> is
      the runtime's date formatting. The reply is the error thrown or the record created.\<close>
  "recordInventoryUsage toLocaleDateString now req st =
     (case (rq_mealType req, rq_items req) of
        (Some mt, Some its) \<Rightarrow>
          if rq_date req = NoDate \<or> mt = [] \<or> its = []
          then (Inl (HttpError 400 ''Date, mealType, and items array are required''), st)
          else if mt \<notin> set [''breakfast'', ''lunch'', ''dinner'']
          then (Inl (HttpError 400 invalidMealType), st)
          else
            (case rq_date req of
               ValidDate parsed \<Rightarrow>
                 (let usageDate = startOfDay parsed;
                      attendanceDate = attendanceDateFor mt usageDate;
                      attendanceSessionType = ''evening'' in
                  case getAttendanceForDate st attendanceDate attendanceSessionType of
                    None \<Rightarrow>
                      (Inl (HttpError 404
                             (''Attendance not found for '' @ attendanceSessionType @ '' session on ''
                                @ toLocaleDateString attendanceDate
                                @ ''. Please record attendance first.'')),
                       st)
                  | Some count \<Rightarrow>
                      (let session = findSession st attendanceSessionType attendanceDate in
                       case checkItems st count its ([], [], []) of
                         (processedItems, inventoryUpdates, errors) \<Rightarrow>
                           if errors \<noteq> [] then (Inl (HttpError 400 (join ''; '' errors)), st)
                           else
                             (let st1 = deductAll now inventoryUpdates st in
                              case createUsage
                                     \<lparr>date = usageDate, mealType = mt, items = processedItems,
                                      attendanceCount = count,
                                      attendanceSessionId = map_option session_id session,
                                      recordedBy = rq_user req,
                                      usageNotes = (case rq_notes req of None \<Rightarrow> [] | Some n \<Rightarrow> n)\<rparr>
                                     st1 of
                                None \<Rightarrow> (Inl ValidationError, st1)
                              | Some (usageRecord, st2) \<Rightarrow> (Inr usageRecord, st2))))
             | _ \<Rightarrow> (Inl (HttpError 400 ''Invalid date format''), st))
      | _ \<Rightarrow> (Inl (HttpError 400 ''Date, mealType, and items array are required''), st))"

section \<open>Attendance sessions\<close>

record attendanceInput =
  in_student :: objectId
  in_status :: string
  in_remarks :: "string option"

record requestUser =
  ru_id :: objectId
  firstName :: string
  lastName :: string

record sessionRequest =
  sq_sessionType :: "string option"
  sq_notes :: "string option"
  sq_records :: "attendanceInput list option"
  sq_date :: dateField
  sq_user :: requestUser

definition markRecord ::
  "attendanceInput \<Rightarrow> store \<times> objectId list \<times> objectId list \<times> nat \<times> nat
     \<Rightarrow> store \<times> objectId list \<times> objectId list \<times> nat \<times> nat" where
  \<comment> \<open>the function mapped over \<open>records\<close>, on the store, \<open>invalidStudents\<close>,
      \<open>attendanceRecordIds\<close>, \<open>presentCount\<close> and \<open>absentCount\<close>\<close>
  "markRecord record acc =
     (case acc of (st, invalidStudents, attendanceRecordIds, present, absent) \<Rightarrow>
        if in_student record \<notin> set (students st)
        then (st, invalidStudents @ [in_student record], attendanceRecordIds, present, absent)
        else
          (let newRecord = \<lparr>record_id = nextId st, student = in_student record,
                            status = in_status record,
                            remarks = (case in_remarks record of None \<Rightarrow> [] | Some r \<Rightarrow> r)\<rparr>;
               st' = st\<lparr>attendanceRecordDocs := attendanceRecordDocs st @ [newRecord],
                        nextId := Suc (nextId st)\<rparr>
           in if in_status record = ''present''
              then (st', invalidStudents, attendanceRecordIds @ [record_id newRecord], Suc present, absent)
              else (st', invalidStudents, attendanceRecordIds @ [record_id newRecord], present, Suc absent)))"

fun markRecords ::
  "attendanceInput list \<Rightarrow> store \<times> objectId list \<times> objectId list \<times> nat \<times> nat
     \<Rightarrow> store \<times> objectId list \<times> objectId list \<times> nat \<times> nat" where
  "markRecords [] acc = acc"
| "markRecords (record # rest) acc = markRecords rest (markRecord record acc)"

definition getUserIdsByRoles :: "store \<Rightarrow> string list \<Rightarrow> objectId \<Rightarrow> objectId list" where
  \<comment> \<open>\<open>User.find({ role: { $in: roles }, _id: { $ne: excludeUserId } })\<close>, the ids\<close>
  "getUserIdsByRoles st roles excludeUserId =
     map user_id (filter (\<lambda>u. user_id u \<noteq> excludeUserId) (usersWithRole st roles))"

definition sendNotifications ::
  "timestamp \<Rightarrow> objectId list \<Rightarrow> string \<Rightarrow> string \<Rightarrow> string \<Rightarrow> store \<Rightarrow> store" where
  \<comment> \<open>\<open>userIds.map((userId) => Notification.create({ user: userId, type, title, message }))\<close>;
      a new notification is unread\<close>
  "sendNotifications now userIds ttl msg ty st =
     foldl (\<lambda>s userId.
              createNotification
                \<lparr>recipient = userId, type = ty, title = ttl, message = msg,
                 read = False, createdAt = now\<rparr> s)
           st userIds"

definition attendanceDateOf :: "timestamp \<Rightarrow> dateField \<Rightarrow> timestamp option" where
  \<comment> \<open>the date of the request at the start of its day, today when the request has none;
      \<open>None\<close> when the date does not parse\<close>
  "attendanceDateOf now d =
     (case d of
        NoDate \<Rightarrow> Some (startOfDay now)
      | ValidDate parsed \<Rightarrow> Some (startOfDay parsed)
      | InvalidDate \<Rightarrow> None)"

definition createAttendanceSession ::
  "(timestamp \<Rightarrow> string) \<Rightarrow> timestamp \<Rightarrow> sessionRequest \<Rightarrow> store
     \<Rightarrow> (failure + attendanceSession) \<times> store" where
  \<comment> \<open>\<open>POST /api/attendance\<close> handled at the instant \<open>now\<close>\<close>
  "createAttendanceSession toLocaleDateString now req st =
     (case (sq_sessionType req, sq_records req) of
        (Some ty, Some records) \<Rightarrow>
          if ty = []
          then (Inl (HttpError 400 ''Please provide all required fields: sessionType and records''), st)
          else if ty \<notin> set [''morning'', ''evening'']
          then (Inl (HttpError 400 (''Invalid session type. Must be 'morning' or 'evening'' @ [CHR 0x27])), st)
          else
            (case attendanceDateOf now (sq_date req) of
               None \<Rightarrow> (Inl (HttpError 400 ''Invalid date format. Please provide a valid date.''), st)
             | Some attendanceDate \<Rightarrow>
                 (case findSession st ty attendanceDate of
                    Some existingSession \<Rightarrow>
                      (Inl (HttpError 409
                             (''Attendance for '' @ ty @ '' session on '' @ toLocaleDateString attendanceDate
                                @ '' already exists. Please update or delete the existing record instead.'')),
                       st)
                  | None \<Rightarrow>
                      (case markRecords records (st, [], [], 0, 0) of
                         (st1, invalidStudents, attendanceRecordIds, present, absent) \<Rightarrow>
                           if invalidStudents \<noteq> []
                           then (Inl (HttpError 400
                                       (''Invalid students or students not in this dorm: ''
                                          @ join '', '' (map idString invalidStudents))),
                                 st1)
                           else
                             (let session =
                                    \<lparr>session_id = nextId st1, sessionType = ty,
                                     attendanceRecords = attendanceRecordIds,
                                     totalStudents = length records,
                                     presentCount = present, absentCount = absent,
                                     markedBy = ru_id (sq_user req),
                                     markedAt = Some attendanceDate,
                                     session_notes = (case sq_notes req of None \<Rightarrow> [] | Some n \<Rightarrow> n),
                                     isCompleted = False\<rparr>;
                                  st2 = st1\<lparr>attendanceSessions := attendanceSessions st1 @ [session],
                                            nextId := Suc (nextId st1)\<rparr>;
                                  staffToNotify =
                                    getUserIdsByRoles st2 [''admin'', ''warden''] (ru_id (sq_user req));
                                  sessionTime = (if ty = ''morning'' then ''Morning'' else ''Evening'');
                                  notificationTitle = sessionTime @ '' Attendance Marked'';
                                  notificationMessage =
                                    firstName (sq_user req) @ '' '' @ lastName (sq_user req)
                                      @ '' marked attendance for '' @ showNat (length records)
                                      @ '' students ('' @ showNat present @ '' present, ''
                                      @ showNat absent @ '' absent)''
                              in (Inr session,
                                  sendNotifications now staffToNotify notificationTitle
                                    notificationMessage ''info'' st2)))))
      | _ \<Rightarrow> (Inl (HttpError 400 ''Please provide all required fields: sessionType and records''), st))"

section \<open>Low-stock monitor\<close>

definition notifyLowStock ::
  "(real \<Rightarrow> string) \<Rightarrow> timestamp \<Rightarrow> inventoryItem \<Rightarrow> user \<Rightarrow> store \<Rightarrow> store" where
  \<comment> \<open>the body of \<open>for (const user of adminUsers)\<close>; \<open>numberToString\<close> is the runtime's
      \<open>`${x}`\<close> for a number\<close>
  "notifyLowStock numberToString now item usr st =
     (let stockStatus = (if currentStock item = 0 then ''out of stock'' else ''below minimum level'');
          existingNotification =
            find (\<lambda>n. recipient n = user_id usr \<and> title n = ''Low Stock: '' @ name item
                        \<and> startOfDay now \<le> createdAt n)
                 (notifications st)
      in case existingNotification of
           Some n \<Rightarrow> st
         | None \<Rightarrow>
             createNotification
               \<lparr>recipient = user_id usr,
                type = (if currentStock item = 0 then ''alert'' else ''warning''),
                title = ''Low Stock: '' @ name item,
                message = name item @ '' is '' @ stockStatus @ ''. Current stock: ''
                            @ numberToString (currentStock item) @ '' '' @ unit item
                            @ '', Minimum required: '' @ numberToString (minimumStock item)
                            @ '' '' @ unit item @ ''.'',
                read = False, createdAt = now\<rparr> st)"

fun notifyUsers ::
  "(real \<Rightarrow> string) \<Rightarrow> timestamp \<Rightarrow> inventoryItem \<Rightarrow> user list \<Rightarrow> store \<Rightarrow> store" where
  "notifyUsers numberToString now item [] st = st"
| "notifyUsers numberToString now item (usr # rest) st =
     notifyUsers numberToString now item rest (notifyLowStock numberToString now item usr st)"

fun notifyItems ::
  "(real \<Rightarrow> string) \<Rightarrow> timestamp \<Rightarrow> inventoryItem list \<Rightarrow> user list \<Rightarrow> store \<Rightarrow> store" where
  "notifyItems numberToString now [] adminUsers st = st"
| "notifyItems numberToString now (item # rest) adminUsers st =
     notifyItems numberToString now rest adminUsers (notifyUsers numberToString now item adminUsers st)"

definition checkLowStockItems :: "(real \<Rightarrow> string) \<Rightarrow> timestamp \<Rightarrow> store \<Rightarrow> store" where
  \<comment> \<open>\<open>checkLowStockItems()\<close> run at the instant \<open>now\<close>\<close>
  "checkLowStockItems numberToString now st =
     (let lowStockItems = filter (\<lambda>item. currentStock item \<le> minimumStock item) (inventoryItems st)
      in if lowStockItems = [] then st
         else notifyItems numberToString now lowStockItems (usersWithRole st [''admin'', ''kitchen'']) st)"

section \<open>The attendance source as the specification words it\<close>

text \<open>
  The two definitions below are not taken from the code: they say, in the
  specification's words, which session a meal's attendance comes from, and the code's
  lookup is compared with them.
\<close>

definition sourceDay :: "string \<Rightarrow> timestamp \<Rightarrow> int option" where
  \<comment> \<open>breakfast and lunch: the previous calendar day; dinner: the same calendar day\<close>
  "sourceDay mt d =
     (if mt = ''breakfast'' \<or> mt = ''lunch'' then Some (calendarDay d - 1)
      else if mt = ''dinner'' then Some (calendarDay d)
      else None)"

definition eveningSessionOn :: "store \<Rightarrow> int \<Rightarrow> attendanceSession option" where
  \<comment> \<open>the evening session whose \<open>markedAt\<close> lies within 00:00:00.000 and 23:59:59.999 of
      calendar day \<open>k\<close>\<close>
  "eveningSessionOn st k =
     find (\<lambda>s. sessionType s = ''evening''
                \<and> (case markedAt s of
                      None \<Rightarrow> False
                    | Some t \<Rightarrow> k * 86400000 \<le> t \<and> t \<le> k * 86400000 + 86399999))
          (attendanceSessions st)"

section \<open>Properties of the low-stock monitor\<close>

definition coveredBy :: "timestamp \<Rightarrow> notification list \<Rightarrow> objectId \<times> string \<Rightarrow> bool" where
  \<comment> \<open>the list holds a notification for the recipient with the title, created at or after
      the instant \<open>since\<close>\<close>
  "coveredBy since ns key =
     list_ex (\<lambda>m. recipient m = fst key \<and> title m = snd key \<and> since \<le> createdAt m) ns"

definition lowStockNotice :: "(real \<Rightarrow> string) \<Rightarrow> timestamp \<Rightarrow> inventoryItem \<Rightarrow> user \<Rightarrow> notification" where
  \<comment> \<open>the document \<open>notifyLowStock\<close> creates\<close>
  "lowStockNotice numberToString now item usr =
     \<lparr>recipient = user_id usr,
      type = (if currentStock item = 0 then ''alert'' else ''warning''),
      title = ''Low Stock: '' @ name item,
      message = name item @ '' is ''
                  @ (if currentStock item = 0 then ''out of stock'' else ''below minimum level'')
                  @ ''. Current stock: ''
                  @ numberToString (currentStock item) @ '' '' @ unit item
                  @ '', Minimum required: '' @ numberToString (minimumStock item)
                  @ '' '' @ unit item @ ''.'',
      read = False, createdAt = now\<rparr>"

definition fresh :: "timestamp \<Rightarrow> notification list \<Rightarrow> notification list \<Rightarrow> bool" where
  \<comment> \<open>the notifications \<open>new\<close>, created at \<open>now\<close>, are for recipient and title pairs that
      differ from each other and that \<open>ns\<close> does not cover since the start of the day\<close>
  "fresh now ns new =
     (distinct (map (\<lambda>n. (recipient n, title n)) new)
      \<and> list_all (\<lambda>n. createdAt n = now
                        \<and> \<not> coveredBy (startOfDay now) ns (recipient n, title n)) new)"

section \<open>An example store\<close>

text \<open>
  Day 0 of the time line is a Thursday, so day 1 (\<open>86400000\<close>), day 8 and day 15 are
  Fridays. The store has a Friday plan whose breakfast takes 5 kg of dhal and 5 kg of rice
  per 10 students, an evening session of 25 present on day 0 and one of nobody present on
  day 14, 20 kg of dhal and 10 kg of rice, an admin and a kitchen user.
\<close>

definition dhal :: inventoryItem where
  "dhal = \<lparr>item_id = 1, name = ''Dhal'', currentStock = 20, unit = ''kg'', minimumStock = 5,
          lastUpdated = 0\<rparr>"

definition rice :: inventoryItem where
  "rice = \<lparr>item_id = 2, name = ''Rice'', currentStock = 10, unit = ''kg'', minimumStock = 15,
          lastUpdated = 0\<rparr>"

definition dhalItem :: mealPlanItem where
  "dhalItem = \<lparr>inventoryItemId = 1, quantity = 5, forStudents = None\<rparr>"

definition riceItem :: mealPlanItem where
  "riceItem = \<lparr>inventoryItemId = 2, quantity = 5, forStudents = None\<rparr>"

definition fridayPlan :: mealPlan where
  "fridayPlan =
     \<lparr>day = ''Friday'', breakfastInventory = [dhalItem, riceItem], lunchInventory = [],
      dinnerInventory = [\<lparr>inventoryItemId = 1, quantity = 2, forStudents = None\<rparr>]\<rparr>"

definition eveningOfDay0 :: attendanceSession where
  "eveningOfDay0 =
     \<lparr>session_id = 50, sessionType = ''evening'', attendanceRecords = [],
      totalStudents = 30, presentCount = 25, absentCount = 5, markedBy = 100,
      markedAt = Some 0, session_notes = [], isCompleted = False\<rparr>"

definition eveningOfDay14 :: attendanceSession where
  "eveningOfDay14 =
     \<lparr>session_id = 51, sessionType = ''evening'', attendanceRecords = [],
      totalStudents = 30, presentCount = 0, absentCount = 30, markedBy = 100,
      markedAt = Some (14 * 86400000), session_notes = [], isCompleted = False\<rparr>"

definition exampleStore :: store where
  "exampleStore =
     \<lparr>mealPlans = [fridayPlan],
      attendanceSessions = [eveningOfDay0, eveningOfDay14],
      attendanceRecordDocs = [],
      students = [200, 201, 202],
      inventoryItems = [dhal, rice],
      users = [\<lparr>user_id = 100, role = ''admin''\<rparr>, \<lparr>user_id = 101, role = ''kitchen''\<rparr>],
      inventoryUsages = [],
      notifications = [],
      nextId = 300\<rparr>"

text \<open>
  A manual recording for the breakfast of day 1 (sent with a date of 10:00 that day) whose
  lines take 5 kg of an item per 10 students.
\<close>

definition dhalLine :: usageRequestItem where
  "dhalLine = \<lparr>rq_inventoryItemId = Some 1, rq_recordedQuantity = Some 5, rq_recordedForStudents = Some 10\<rparr>"

definition riceLine :: usageRequestItem where
  "riceLine = \<lparr>rq_inventoryItemId = Some 2, rq_recordedQuantity = Some 5, rq_recordedForStudents = Some 10\<rparr>"

definition exampleRequest :: "usageRequestItem list \<Rightarrow> usageRequest" where
  "exampleRequest lines =
     \<lparr>rq_date = ValidDate (86400000 + 36000000), rq_mealType = Some ''breakfast'',
      rq_items = Some lines, rq_notes = None, rq_user = 101\<rparr>"

definition negativeLine :: usageRequestItem where
  \<comment> \<open>a line with a negative quantity\<close>
  "negativeLine =
     \<lparr>rq_inventoryItemId = Some 1, rq_recordedQuantity = Some (- 5), rq_recordedForStudents = Some 10\<rparr>"

definition longNotes :: string where
  \<comment> \<open>notes of 501 characters\<close>
  "longNotes = replicate 501 (CHR ''x'')"

text \<open>
  The examples print the date of an error message as the number of its calendar day.
\<close>

definition dayNumber :: "timestamp \<Rightarrow> string" where
  "dayNumber t = ''day '' @ showNat (nat (calendarDay t))"

text \<open>
  A warden marks the morning attendance of day 1: two of the three students present.
\<close>

definition morningRequest :: sessionRequest where
  "morningRequest =
     \<lparr>sq_sessionType = Some ''morning'', sq_notes = None,
      sq_records =
        Some [\<lparr>in_student = 200, in_status = ''present'', in_remarks = None\<rparr>,
              \<lparr>in_student = 201, in_status = ''absent'', in_remarks = Some ''sick''\<rparr>,
              \<lparr>in_student = 202, in_status = ''present'', in_remarks = None\<rparr>],
      sq_date = ValidDate (86400000 + 30000000),
      sq_user = \<lparr>ru_id = 102, firstName = ''Nimal'', lastName = ''Perera''\<rparr>\<rparr>"

text \<open>
  The example store with one more evening session, of 20 present, at 19:00 on day 8, a
  Friday; the Friday plan's dinner takes 2 kg of dhal per 10 students.
\<close>

definition eveningOfDay8 :: attendanceSession where
  "eveningOfDay8 =
     \<lparr>session_id = 52, sessionType = ''evening'', attendanceRecords = [],
      totalStudents = 30, presentCount = 20, absentCount = 10, markedBy = 100,
      markedAt = Some (8 * 86400000 + 68400000), session_notes = [], isCompleted = False\<rparr>"

definition laterStore :: store where
  "laterStore = exampleStore\<lparr>attendanceSessions := [eveningOfDay0, eveningOfDay8, eveningOfDay14]\<rparr>"

text \<open>
  For the low-stock monitor: the example store with a third item that has run out.
\<close>

definition salt :: inventoryItem where
  "salt = \<lparr>item_id = 3, name = ''Salt'', currentStock = 0, unit = ''kg'', minimumStock = 1,
           lastUpdated = 0\<rparr>"

definition pantry :: store where
  "pantry = exampleStore\<lparr>inventoryItems := [dhal, rice, salt]\<rparr>"

section \<open>Auxiliary facts\<close>

lemmas example_defs = exampleStore_def fridayPlan_def dhal_def rice_def dhalItem_def riceItem_def
  eveningOfDay0_def eveningOfDay14_def

lemmas double_eval = double_def roundPos.simps roundHalfEven_def

lemma roundPos_nonneg: "0 \<le> roundPos x"
proof (induction x rule: roundPos.induct)
  case (1 x)
  show ?case
  proof (cases "x \<le> 0")
    case True
    then show ?thesis by (simp add: roundPos.simps)
  next
    case pos: False
    show ?thesis
    proof (cases "2 ^ 53 \<le> x")
      case True
      with pos 1(1) have "0 \<le> roundPos (x / 2)" by simp
      moreover from pos True have "roundPos x = 2 * roundPos (x / 2)"
        by (subst roundPos.simps) simp
      ultimately show ?thesis by simp
    next
      case below: False
      show ?thesis
      proof (cases "x < 2 ^ 52")
        case True
        with pos below 1(2) have "0 \<le> roundPos (2 * x)" by simp
        moreover from pos below True have "roundPos x = roundPos (2 * x) / 2"
          by (subst roundPos.simps) simp
        ultimately show ?thesis by simp
      next
        case False
        with pos below have r: "roundPos x = of_int (roundHalfEven x)"
          by (subst roundPos.simps) simp
        from pos have "0 \<le> \<lfloor>x\<rfloor>" by simp
        then have "0 \<le> roundHalfEven x" by (simp add: roundHalfEven_def Let_def)
        with r show ?thesis by simp
      qed
    qed
  qed
qed

lemma roundPos_twice: "roundPos (2 * x) = 2 * roundPos x"
proof (cases "x \<le> 0")
  case True
  then have "2 * x \<le> 0" by simp
  with True show ?thesis by (simp add: roundPos.simps)
next
  case pos: False
  show ?thesis
  proof (cases "x < 2 ^ 52")
    case True
    with pos have "roundPos x = roundPos (2 * x) / 2" by (subst roundPos.simps) simp
    then show ?thesis by simp
  next
    case False
    with pos have "roundPos (2 * x) = 2 * roundPos (2 * x / 2)" by (subst roundPos.simps) simp
    then show ?thesis by simp
  qed
qed

lemma roundHalfEven_near: "\<bar>of_int (roundHalfEven y) - y\<bar> \<le> 1 / 2"
proof -
  have "of_int \<lfloor>y\<rfloor> \<le> y" "y < of_int \<lfloor>y\<rfloor> + 1" by linarith+
  then show ?thesis by (auto simp: roundHalfEven_def Let_def)
qed

lemma roundPos_error: "0 \<le> x \<Longrightarrow> \<bar>roundPos x - x\<bar> \<le> x / 2 ^ 53"
proof (induction x rule: roundPos.induct)
  case (1 x)
  show ?case
  proof (cases "x \<le> 0")
    case True
    with 1(3) show ?thesis by (simp add: roundPos.simps)
  next
    case pos: False
    show ?thesis
    proof (cases "2 ^ 53 \<le> x")
      case True
      define h where "h = roundPos (x / 2) - x / 2"
      from pos True 1(1) have "\<bar>h\<bar> \<le> x / 2 / 2 ^ 53" unfolding h_def by simp
      moreover from pos True have "roundPos x = 2 * roundPos (x / 2)"
        by (subst roundPos.simps) simp
      then have d: "roundPos x - x = 2 * h" unfolding h_def by simp
      have "\<bar>roundPos x - x\<bar> = 2 * \<bar>h\<bar>" unfolding d by (simp add: abs_mult)
      ultimately show ?thesis by simp
    next
      case below: False
      show ?thesis
      proof (cases "x < 2 ^ 52")
        case True
        define h where "h = roundPos (2 * x) - 2 * x"
        from pos below True 1(2) have "\<bar>h\<bar> \<le> 2 * x / 2 ^ 53" unfolding h_def by simp
        moreover from pos below True have "roundPos x = roundPos (2 * x) / 2"
          by (subst roundPos.simps) simp
        then have d: "roundPos x - x = h / 2" unfolding h_def by simp
        have "\<bar>roundPos x - x\<bar> = \<bar>h\<bar> / 2" unfolding d by simp
        ultimately show ?thesis by simp
      next
        case False
        with pos below have r: "roundPos x = of_int (roundHalfEven x)"
          by (subst roundPos.simps) simp
        from False have "1 / 2 \<le> x / 2 ^ 53" by simp
        with roundHalfEven_near [of x] r show ?thesis by simp
      qed
    qed
  qed
qed

lemma double_nonneg: "0 \<le> x \<Longrightarrow> 0 \<le> double x"
  by (simp add: double_def roundPos_nonneg)

lemma double_twice: "double (2 * x) = 2 * double x"
proof -
  have "- (2 * x) = 2 * (- x)" by simp
  then have "roundPos (- (2 * x)) = 2 * roundPos (- x)" by (simp only: roundPos_twice)
  then show ?thesis by (simp add: double_def roundPos_twice)
qed

lemma double_error: "\<bar>double x - x\<bar> \<le> \<bar>x\<bar> / 2 ^ 53"
proof (cases "x < 0")
  case True
  then have "0 \<le> - x" by simp
  from roundPos_error [OF this] True show ?thesis by (simp add: double_def)
next
  case False
  then have "0 \<le> x" by simp
  from roundPos_error [OF this] False show ?thesis by (simp add: double_def)
qed

lemma double_one: "double 1 = 1"
  by (simp add: double_eval)

lemma quantityToConsume_nonneg: "0 \<le> b \<Longrightarrow> 0 \<le> quantityToConsume b g a"
  by (simp add: quantityToConsume_def double_nonneg)

lemma example_quantities:
  "quantityToConsume 5 10 25 = 25 / 2" "quantityToConsume (- 5) 10 25 = - (25 / 2)"
  "quantityToConsume 2 10 20 = 4"
  by (simp_all add: quantityToConsume_def double_eval)

lemma example_stocks:
  "double (15 / 2) = 15 / 2" "double (65 / 2) = 65 / 2" "double 16 = 16"
  by (simp_all add: double_eval)

lemma find_map_same:
  assumes "\<And>y. P (f y) = P y"
  shows "find P (map f xs) = map_option f (find P xs)"
  using assms by (induction xs) simp_all

lemma findById_saveItem:
  "findById (saveItem doc st) i =
     map_option (\<lambda>it. if item_id it = item_id doc
                       then it\<lparr>currentStock := currentStock doc, lastUpdated := lastUpdated doc\<rparr>
                       else it) (findById st i)"
  unfolding findById_def saveItem_def
  by (simp add: find_map_same)

lemma sublist_trans': "sublist a b \<Longrightarrow> sublist b c \<Longrightarrow> sublist a c"
  by (rule sublist_order.order_trans)

lemma insufficientStock_reports:
  "sublist (name itm) (insufficientStock itm q)"
  "sublist (toFixed2 (currentStock itm)) (insufficientStock itm q)"
  "sublist (toFixed2 q) (insufficientStock itm q)"
proof -
  show "sublist (name itm) (insufficientStock itm q)"
    unfolding insufficientStock_def by (rule sublist_appendI)
  have "insufficientStock itm q = (''Insufficient stock for '' @ name itm @ ''. Available: '')
      @ toFixed2 (currentStock itm) @ ('' '' @ unit itm @ '', Required: '' @ toFixed2 q @ '' '' @ unit itm)"
    unfolding insufficientStock_def by simp
  then show "sublist (toFixed2 (currentStock itm)) (insufficientStock itm q)"
    unfolding sublist_def by blast
  have "insufficientStock itm q = (''Insufficient stock for '' @ name itm @ ''. Available: ''
      @ toFixed2 (currentStock itm) @ '' '' @ unit itm @ '', Required: '') @ toFixed2 q @ ('' '' @ unit itm)"
    unfolding insufficientStock_def by simp
  then show "sublist (toFixed2 q) (insufficientStock itm q)"
    unfolding sublist_def by blast
qed


lemma consumeItem_short:
  assumes "findById st (inventoryItemId item) = Some itm"
    and "currentStock itm < quantityToConsume (quantity item) (forStudentsOf item) count"
  shows "consumeItem now mt count item (st, errors, usageItems) =
           (st,
            errors @ [mt @ '': '' @ insufficientStock itm
                        (quantityToConsume (quantity item) (forStudentsOf item) count)
                      @ '' (Attendance: '' @ showNat count @ '')''],
            usageItems)"
  using assms by (simp add: consumeItem_def)

lemma consumeItem_debit:
  assumes "findById st (inventoryItemId item) = Some itm"
    and "\<not> currentStock itm < quantityToConsume (quantity item) (forStudentsOf item) count"
  shows "consumeItem now mt count item (st, errors, usageItems) =
           (saveItem (itm\<lparr>currentStock :=
                               double (currentStock itm
                                         - quantityToConsume (quantity item) (forStudentsOf item) count),
                             lastUpdated := now\<rparr>) st,
            errors,
            usageItems @ [\<lparr>usedItemId = item_id itm, recordedQuantity = quantity item,
                            recordedForStudents = forStudentsOf item,
                            actualQuantityDeducted =
                              quantityToConsume (quantity item) (forStudentsOf item) count\<rparr>])"
  using assms by (simp add: consumeItem_def Let_def)

lemma consumeItem_missing:
  assumes "findById st (inventoryItemId item) = None"
  shows "consumeItem now mt count item (st, errors, usageItems) =
           (st, errors @ [mt @ '': Inventory item '' @ idString (inventoryItemId item) @ '' not found''],
            usageItems)"
  using assms by (simp add: consumeItem_def)

lemma checkItem_short:
  assumes "rq_inventoryItemId line = Some i" "rq_recordedQuantity line = Some rq"
    "rq_recordedForStudents line = Some g" "g = 1 \<or> g = 10"
    "findById st i = Some itm" "currentStock itm < quantityToConsume rq g count"
  shows "checkItem st count line (processed, updates, errors) =
           (processed, updates, errors @ [insufficientStock itm (quantityToConsume rq g count)])"
  using assms by (auto simp add: checkItem_def)

lemma checkItem_ok:
  assumes "rq_inventoryItemId line = Some i" "rq_recordedQuantity line = Some rq"
    "rq_recordedForStudents line = Some g" "g = 1 \<or> g = 10"
    "findById st i = Some itm" "\<not> currentStock itm < quantityToConsume rq g count"
  shows "checkItem st count line (processed, updates, errors) =
           (processed @ [\<lparr>usedItemId = i, recordedQuantity = rq, recordedForStudents = g,
                           actualQuantityDeducted = quantityToConsume rq g count\<rparr>],
            updates @ [(itm, quantityToConsume rq g count)],
            errors)"
  using assms by (auto simp add: checkItem_def Let_def)

lemma recordInventoryUsage_checked:
  assumes "rq_date req = ValidDate parsed" "rq_mealType req = Some mt"
    "mt \<in> set [''breakfast'', ''lunch'', ''dinner'']" "rq_items req = Some lines" "lines \<noteq> []"
    "getAttendanceForDate st (attendanceDateFor mt (startOfDay parsed)) ''evening'' = Some count"
    "checkItems st count lines ([], [], []) = (processed, updates, errors)"
  shows "recordInventoryUsage toLocale now req st =
           (if errors \<noteq> [] then (Inl (HttpError 400 (join ''; '' errors)), st)
            else (case createUsage
                         \<lparr>date = startOfDay parsed, mealType = mt, items = processed,
                          attendanceCount = count,
                          attendanceSessionId =
                            map_option session_id
                              (findSession st ''evening'' (attendanceDateFor mt (startOfDay parsed))),
                          recordedBy = rq_user req,
                          usageNotes = (case rq_notes req of None \<Rightarrow> [] | Some n \<Rightarrow> n)\<rparr>
                         (deductAll now updates st) of
                    None \<Rightarrow> (Inl ValidationError, deductAll now updates st)
                  | Some (usageRecord, st2) \<Rightarrow> (Inr usageRecord, st2)))"
proof -
  from assms(3) have "mt \<noteq> []" by auto
  with assms show ?thesis
    by (simp add: recordInventoryUsage_def Let_def)
qed

lemma saveItem_frame:
  "mealPlans (saveItem doc st) = mealPlans st"
  "attendanceSessions (saveItem doc st) = attendanceSessions st"
  "users (saveItem doc st) = users st"
  "inventoryUsages (saveItem doc st) = inventoryUsages st"
  "notifications (saveItem doc st) = notifications st"
  by (simp_all add: saveItem_def)

lemma consumeItem_frame:
  "mealPlans (fst (consumeItem now mt count item acc)) = mealPlans (fst acc)
   \<and> attendanceSessions (fst (consumeItem now mt count item acc)) = attendanceSessions (fst acc)
   \<and> users (fst (consumeItem now mt count item acc)) = users (fst acc)
   \<and> inventoryUsages (fst (consumeItem now mt count item acc)) = inventoryUsages (fst acc)
   \<and> notifications (fst (consumeItem now mt count item acc)) = notifications (fst acc)"
proof -
  obtain st errors usageItems where acc: "acc = (st, errors, usageItems)" by (cases acc) auto
  show ?thesis
  proof (cases "findById st (inventoryItemId item)")
    case None
    then show ?thesis unfolding acc by (simp add: consumeItem_missing)
  next
    case (Some itm)
    show ?thesis
    proof (cases "currentStock itm < quantityToConsume (quantity item) (forStudentsOf item) count")
      case True
      with Some show ?thesis unfolding acc by (simp add: consumeItem_short)
    next
      case False
      with Some show ?thesis unfolding acc by (simp add: consumeItem_debit saveItem_frame)
    qed
  qed
qed

lemma consumeItems_frame:
  "mealPlans (fst (consumeItems now mt count its acc)) = mealPlans (fst acc)
   \<and> attendanceSessions (fst (consumeItems now mt count its acc)) = attendanceSessions (fst acc)
   \<and> users (fst (consumeItems now mt count its acc)) = users (fst acc)
   \<and> inventoryUsages (fst (consumeItems now mt count its acc)) = inventoryUsages (fst acc)
   \<and> notifications (fst (consumeItems now mt count its acc)) = notifications (fst acc)"
proof (induction its arbitrary: acc)
  case Nil
  then show ?case by simp
next
  case (Cons item its)
  from Cons.IH [of "consumeItem now mt count item acc"] consumeItem_frame [of now mt count item acc]
  show ?case by simp
qed

lemma foldl_createNotification:
  "foldl (\<lambda>s x. createNotification (mk x) s) st xs = st\<lparr>notifications := notifications st @ map mk xs\<rparr>"
proof (induction xs arbitrary: st)
  case Nil
  then show ?case by simp
next
  case (Cons x xs)
  show ?case unfolding foldl_Cons Cons.IH by (simp add: createNotification_def)
qed

lemma notifyAdmins_eq:
  "notifyAdmins now mt dn errors st =
     st\<lparr>notifications := notifications st @
          map (\<lambda>admin. \<lparr>recipient = user_id admin, type = ''alert'',
                 title = ''Inventory Consumption Error - '' @ mt @ '' ('' @ dn @ '')'',
                 message = ''Errors: '' @ join ''; '' errors,
                 read = False, createdAt = now\<rparr>) (usersWithRole st [''admin''])\<rparr>"
  unfolding notifyAdmins_def by (rule foldl_createNotification)

lemma consume_run:
  assumes "findMealPlan st (dayNames ! getDay d) = Some plan"
    and "findSession st ''evening'' (attendanceDateFor mt d) = Some s" and "presentCount s \<noteq> 0"
    and "mealInventoryOf plan mt \<noteq> []"
    and "find (\<lambda>u. role u = ''admin'') (users st) = Some systemUser"
    and "consumeItems now mt (presentCount s) (mealInventoryOf plan mt) (st, [], [])
           = (st1, errors, usageItems)"
  shows "consumeInventoryForMeal now mt d st =
           (let st2 = (if usageItems \<noteq> []
                       then (case createUsage
                                   \<lparr>date = d, mealType = mt, items = usageItems,
                                    attendanceCount = presentCount s,
                                    attendanceSessionId = Some (session_id s),
                                    recordedBy = user_id systemUser,
                                    usageNotes = ''Automated deduction via cron job''\<rparr> st1 of
                               Some (u, s') \<Rightarrow> s'
                             | None \<Rightarrow> st1)
                       else st1)
            in if errors \<noteq> [] then notifyAdmins now mt (dayNames ! getDay d) errors st2 else st2)"
proof -
  from assms(2,3) have "getAttendanceCount st ''evening'' (attendanceDateFor mt d) = Some (presentCount s)"
    by (simp add: getAttendanceCount_def)
  with assms show ?thesis
    unfolding consumeInventoryForMeal_def
    by (simp add: Let_def)
qed


lemma cronNotes: "trim ''Automated deduction via cron job'' = ''Automated deduction via cron job''"
  by (simp add: trim_def isSpace_def)

lemma getAttendanceCount_Some:
  assumes "getAttendanceCount st ty a = Some count"
  shows "\<exists>s. findSession st ty a = Some s \<and> presentCount s = count"
  using assms by (auto simp: getAttendanceCount_def split: option.splits if_splits)

lemma find_admin:
  assumes "\<exists>u \<in> set (users st). role u = ''admin''"
  shows "\<exists>systemUser. find (\<lambda>u. role u = ''admin'') (users st) = Some systemUser"
proof (cases "find (\<lambda>u. role u = ''admin'') (users st)")
  case None
  with assms show ?thesis by (auto simp: find_None_iff)
next
  case (Some a)
  then show ?thesis by blast
qed

lemma inDay_calendarDay:
  "inDay a m = (case m of None \<Rightarrow> False
                | Some t \<Rightarrow> calendarDay a * 86400000 \<le> t \<and> t \<le> calendarDay a * 86400000 + 86399999)"
proof -
  have "a - a mod 86400000 = a div 86400000 * 86400000"
    by (simp add: minus_mod_eq_div_mult)
  then show ?thesis
    by (simp add: inDay_def startOfDay_def endOfDay_def calendarDay_def msPerDay_def split: option.splits)
qed

lemma calendarDay_previousDay: "calendarDay (previousDay d) = calendarDay d - 1"
  by (simp add: calendarDay_def previousDay_def msPerDay_def)

lemma calendarDay_startOfDay: "calendarDay (startOfDay d) = calendarDay d"
  by (simp add: calendarDay_def startOfDay_def msPerDay_def minus_mod_eq_div_mult)

lemma sourceDay_attendanceDateFor:
  assumes "sourceDay mt d = Some k"
  shows "calendarDay (attendanceDateFor mt d) = k"
  using assms
  by (auto simp: sourceDay_def attendanceDateFor_def calendarDay_previousDay split: if_splits)

lemma findSession_evening:
  assumes "sourceDay mt d = Some k"
  shows "findSession st ''evening'' (attendanceDateFor mt d) = eveningSessionOn st k"
  unfolding findSession_def eveningSessionOn_def inDay_calendarDay
    sourceDay_attendanceDateFor [OF assms] ..

lemma createUsage_Some:
  assumes "createUsage u st = Some (u', st')"
  shows "inventoryUsages st' = inventoryUsages st @ [u'] \<and> attendanceCount u' = attendanceCount u
       \<and> attendanceSessionId u' = attendanceSessionId u \<and> date u' = date u
       \<and> mealType u' = mealType u \<and> items u' = items u
       \<and> notifications st' = notifications st \<and> inventoryItems st' = inventoryItems st
       \<and> users st' = users st"
  using assms by (auto simp: createUsage_def Let_def split: if_splits)

lemma run_usages:
  "inventoryUsages (consumeInventoryForMeal now mt d st) = inventoryUsages st
   \<or> (\<exists>s u. findSession st ''evening'' (attendanceDateFor mt d) = Some s
          \<and> inventoryUsages (consumeInventoryForMeal now mt d st) = inventoryUsages st @ [u]
          \<and> attendanceCount u = presentCount s \<and> attendanceSessionId u = Some (session_id s)
          \<and> date u = d \<and> mealType u = mt)"
proof (cases "findMealPlan st (dayNames ! getDay d)")
  case None
  then show ?thesis by (simp add: consumeInventoryForMeal_def)
next
  case (Some plan)
  show ?thesis
  proof (cases "findSession st ''evening'' (attendanceDateFor mt d)")
    case None
    then have "getAttendanceCount st ''evening'' (attendanceDateFor mt d) = None"
      by (simp add: getAttendanceCount_def)
    with Some show ?thesis by (simp add: consumeInventoryForMeal_def)
  next
    case s: (Some s)
    show ?thesis
    proof (cases "presentCount s = 0")
      case True
      with s have "getAttendanceCount st ''evening'' (attendanceDateFor mt d) = Some 0"
        by (simp add: getAttendanceCount_def)
      with Some show ?thesis by (simp add: consumeInventoryForMeal_def)
    next
      case count: False
      with s have att: "getAttendanceCount st ''evening'' (attendanceDateFor mt d) = Some (presentCount s)"
        by (simp add: getAttendanceCount_def)
      show ?thesis
      proof (cases "mealInventoryOf plan mt = []")
        case True
        with Some att count show ?thesis by (simp add: consumeInventoryForMeal_def Let_def)
      next
        case inv: False
        show ?thesis
        proof (cases "find (\<lambda>u. role u = ''admin'') (users st)")
          case None
          with Some att count inv show ?thesis by (simp add: consumeInventoryForMeal_def Let_def)
        next
          case su: (Some systemUser)
          obtain st1 errors usageItems where
            loop: "consumeItems now mt (presentCount s) (mealInventoryOf plan mt) (st, [], [])
                     = (st1, errors, usageItems)"
            by (cases "consumeItems now mt (presentCount s) (mealInventoryOf plan mt) (st, [], [])") auto
          from consumeItems_frame [of now mt "presentCount s" "mealInventoryOf plan mt" "(st, [], [])"] loop
          have frame: "inventoryUsages st1 = inventoryUsages st" by simp
          let ?u = "\<lparr>date = d, mealType = mt, items = usageItems,
                      attendanceCount = presentCount s,
                      attendanceSessionId = Some (session_id s),
                      recordedBy = user_id systemUser,
                      usageNotes = ''Automated deduction via cron job''\<rparr>"
          define st2 where "st2 = (if usageItems \<noteq> []
                       then (case createUsage ?u st1 of Some (u, s') \<Rightarrow> s' | None \<Rightarrow> st1)
                       else st1)"
          from consume_run [OF Some s count inv su loop]
          have "consumeInventoryForMeal now mt d st
                  = (if errors \<noteq> [] then notifyAdmins now mt (dayNames ! getDay d) errors st2 else st2)"
            unfolding st2_def Let_def .
          then have run: "inventoryUsages (consumeInventoryForMeal now mt d st) = inventoryUsages st2"
            by (simp add: notifyAdmins_eq)
          show ?thesis
          proof (cases "createUsage ?u st1")
            case None
            then have "st2 = st1" by (simp add: st2_def)
            with run frame show ?thesis by simp
          next
            case (Some p)
            obtain u' st' where p: "p = (u', st')" by (cases p) auto
            show ?thesis
            proof (cases "usageItems = []")
              case True
              then have "st2 = st1" by (simp add: st2_def)
              with run frame show ?thesis by simp
            next
              case False
              from Some p have c: "createUsage ?u st1 = Some (u', st')" by simp
              from createUsage_Some [OF c] frame
              have u': "inventoryUsages st' = inventoryUsages st @ [u']"
                "attendanceCount u' = presentCount s" "attendanceSessionId u' = Some (session_id s)"
                "date u' = d" "mealType u' = mt" by simp_all
              from False c have "st2 = st'" by (simp add: st2_def)
              with run u' s show ?thesis by simp
            qed
          qed
        qed
      qed
    qed
  qed
qed


lemma recordInventoryUsage_cases:
  obtains (rejected) code msg where
      "recordInventoryUsage toLocale now req st = (Inl (HttpError code msg), st)"
    | (checked) parsed mt lines count processed updates where
      "rq_date req = ValidDate parsed" "rq_mealType req = Some mt"
      "mt \<in> set [''breakfast'', ''lunch'', ''dinner'']" "rq_items req = Some lines" "lines \<noteq> []"
      "getAttendanceForDate st (attendanceDateFor mt (startOfDay parsed)) ''evening'' = Some count"
      "checkItems st count lines ([], [], []) = (processed, updates, [])"
proof (cases "rq_mealType req")
  case None
  then have "recordInventoryUsage toLocale now req st
               = (Inl (HttpError 400 ''Date, mealType, and items array are required''), st)"
    by (simp add: recordInventoryUsage_def)
  then show ?thesis by (rule rejected)
next
  case mt: (Some mt)
  show ?thesis
  proof (cases "rq_items req")
    case None
    with mt have "recordInventoryUsage toLocale now req st
               = (Inl (HttpError 400 ''Date, mealType, and items array are required''), st)"
      by (simp add: recordInventoryUsage_def)
    then show ?thesis by (rule rejected)
  next
    case lines: (Some lines)
    show ?thesis
    proof (cases "rq_date req = NoDate \<or> mt = [] \<or> lines = []")
      case True
      with mt lines have "recordInventoryUsage toLocale now req st
               = (Inl (HttpError 400 ''Date, mealType, and items array are required''), st)"
        by (simp add: recordInventoryUsage_def)
      then show ?thesis by (rule rejected)
    next
      case required: False
      show ?thesis
      proof (cases "mt \<in> set [''breakfast'', ''lunch'', ''dinner'']")
        case False
        with mt lines required have "recordInventoryUsage toLocale now req st
               = (Inl (HttpError 400 invalidMealType), st)"
          by (simp add: recordInventoryUsage_def)
        then show ?thesis by (rule rejected)
      next
        case meal: True
        show ?thesis
        proof (cases "rq_date req")
          case NoDate
          with required show ?thesis by simp
        next
          case InvalidDate
          with mt lines required meal have "recordInventoryUsage toLocale now req st
               = (Inl (HttpError 400 ''Invalid date format''), st)"
            by (simp add: recordInventoryUsage_def)
          then show ?thesis by (rule rejected)
        next
          case (ValidDate parsed)
          show ?thesis
          proof (cases "getAttendanceForDate st (attendanceDateFor mt (startOfDay parsed)) ''evening''")
            case None
            with mt lines required meal ValidDate
            have "recordInventoryUsage toLocale now req st
               = (Inl (HttpError 404
                        (''Attendance not found for '' @ ''evening'' @ '' session on ''
                           @ toLocale (attendanceDateFor mt (startOfDay parsed))
                           @ ''. Please record attendance first.'')), st)"
              by (simp add: recordInventoryUsage_def Let_def)
            then show ?thesis by (rule rejected)
          next
            case (Some count)
            obtain p u e where r: "checkItems st count lines ([], [], []) = (p, u, e)"
              by (cases "checkItems st count lines ([], [], [])") auto
            from required have ne: "lines \<noteq> []" by simp
            note run = recordInventoryUsage_checked [OF ValidDate mt meal lines ne Some r, of toLocale now]
            show ?thesis
            proof (cases "e = []")
              case True
              with r have "checkItems st count lines ([], [], []) = (p, u, [])" by simp
              from checked [OF ValidDate mt meal lines ne Some this] show ?thesis .
            next
              case False
              with run have "recordInventoryUsage toLocale now req st
                               = (Inl (HttpError 400 (join ''; '' e)), st)" by simp
              then show ?thesis by (rule rejected)
            qed
          qed
        qed
      qed
    qed
  qed
qed

lemma deductAll_frame:
  "inventoryUsages (deductAll now us st) = inventoryUsages st
   \<and> notifications (deductAll now us st) = notifications st
   \<and> attendanceSessions (deductAll now us st) = attendanceSessions st
   \<and> users (deductAll now us st) = users st
   \<and> mealPlans (deductAll now us st) = mealPlans st"
proof (induction us arbitrary: st)
  case Nil
  then show ?case by simp
next
  case (Cons u us)
  obtain itm q where u: "u = (itm, q)" by (cases u) auto
  from Cons.IH [of "deduct now u st"] show ?case
    by (simp add: u deduct_def saveItem_frame)
qed

lemma recordInventoryUsage_source:
  assumes "recordInventoryUsage toLocale now req st = (Inr u, st')"
    and "rq_date req = ValidDate parsed" and "rq_mealType req = Some mt"
  shows "\<exists>s. findSession st ''evening'' (attendanceDateFor mt (startOfDay parsed)) = Some s
           \<and> attendanceCount u = presentCount s \<and> attendanceSessionId u = Some (session_id s)"
proof (cases rule: recordInventoryUsage_cases [of toLocale now req st])
  case (rejected code msg)
  with assms(1) show ?thesis by simp
next
  case (checked parsed' mt' lines count processed updates)
  with assms(2,3) have eq: "parsed' = parsed" "mt' = mt" by simp_all
  note c = checked [unfolded eq]
  from c(6) obtain s where s: "findSession st ''evening'' (attendanceDateFor mt (startOfDay parsed)) = Some s"
    "presentCount s = count"
    by (auto simp: getAttendanceForDate_def)
  let ?u = "\<lparr>date = startOfDay parsed, mealType = mt, items = processed,
              attendanceCount = count,
              attendanceSessionId =
                map_option session_id
                  (findSession st ''evening'' (attendanceDateFor mt (startOfDay parsed))),
              recordedBy = rq_user req,
              usageNotes = (case rq_notes req of None \<Rightarrow> [] | Some n \<Rightarrow> n)\<rparr>"
  note run = recordInventoryUsage_checked [OF c, of toLocale now]
  show ?thesis
  proof (cases "createUsage ?u (deductAll now updates st)")
    case None
    with run assms(1) show ?thesis by simp
  next
    case (Some p)
    obtain u' st2 where p: "p = (u', st2)" by (cases p) auto
    with Some have cr: "createUsage ?u (deductAll now updates st) = Some (u', st2)" by simp
    with run assms(1) have "u' = u" by simp
    with createUsage_Some [OF cr] s show ?thesis by simp
  qed
qed

lemma div_eq_window:
  fixes t k m :: int
  assumes "0 < m"
  shows "t div m = k \<longleftrightarrow> k * m \<le> t \<and> t \<le> k * m + (m - 1)"
proof
  assume "t div m = k"
  moreover have "t = t div m * m + t mod m" by simp
  moreover have "0 \<le> t mod m" "t mod m < m" using assms by simp_all
  ultimately show "k * m \<le> t \<and> t \<le> k * m + (m - 1)" by auto
next
  assume a: "k * m \<le> t \<and> t \<le> k * m + (m - 1)"
  then have "t = m * k + (t - k * m)" "0 \<le> t - k * m" "t - k * m < m"
    by (simp_all add: mult.commute)
  then show "t div m = k" by (rule int_div_pos_eq)
qed

lemma inDay_iff_calendarDay: "inDay a (Some t) \<longleftrightarrow> calendarDay t = calendarDay a"
  using div_eq_window [of 86400000 t "a div 86400000"]
  by (simp add: inDay_calendarDay calendarDay_def msPerDay_def)


lemma findSession_exists:
  assumes "s \<in> set (attendanceSessions st)" "sessionType s = ty" "inDay a (markedAt s)"
  shows "\<exists>x. findSession st ty a = Some x"
proof (cases "findSession st ty a")
  case None
  with assms show ?thesis by (auto simp: findSession_def find_None_iff)
next
  case (Some x)
  then show ?thesis by blast
qed

lemma markRecord_step:
  "markRecord entry (st, bad, ids, p, a) =
     (if in_student entry \<notin> set (students st)
      then (st, bad @ [in_student entry], ids, p, a)
      else (st\<lparr>attendanceRecordDocs := attendanceRecordDocs st @
                  [\<lparr>record_id = nextId st, student = in_student entry, status = in_status entry,
                    remarks = (case in_remarks entry of None \<Rightarrow> [] | Some r \<Rightarrow> r)\<rparr>],
               nextId := Suc (nextId st)\<rparr>,
            bad, ids @ [nextId st],
            if in_status entry = ''present'' then Suc p else p,
            if in_status entry = ''present'' then a else Suc a))"
  by (simp add: markRecord_def Let_def)

lemma markRecords_counts:
  assumes "markRecords records (st, bad, ids, p, a) = (st', bad', ids', p', a')"
  shows "students st' = students st \<and> attendanceSessions st' = attendanceSessions st
       \<and> users st' = users st \<and> notifications st' = notifications st
       \<and> inventoryItems st' = inventoryItems st \<and> inventoryUsages st' = inventoryUsages st
       \<and> length bad \<le> length bad'
       \<and> (length bad' = length bad \<longrightarrow>
            p' = p + length (filter (\<lambda>r. in_status r = ''present'') records)
            \<and> a' = a + length (filter (\<lambda>r. in_status r \<noteq> ''present'') records)
            \<and> (\<forall>r \<in> set records. in_student r \<in> set (students st)))"
  using assms
proof (induction records arbitrary: st bad ids p a)
  case Nil
  then show ?case by simp
next
  case (Cons entry records)
  show ?case
  proof (cases "in_student entry \<in> set (students st)")
    case False
    with Cons.prems have "markRecords records (st, bad @ [in_student entry], ids, p, a)
                            = (st', bad', ids', p', a')"
      by (simp add: markRecord_step)
    from Cons.IH [OF this] show ?thesis by simp
  next
    case True
    let ?st = "st\<lparr>attendanceRecordDocs := attendanceRecordDocs st @
                  [\<lparr>record_id = nextId st, student = in_student entry, status = in_status entry,
                    remarks = (case in_remarks entry of None \<Rightarrow> [] | Some r \<Rightarrow> r)\<rparr>],
               nextId := Suc (nextId st)\<rparr>"
    from True Cons.prems
    have "markRecords records (?st, bad, ids @ [nextId st],
             if in_status entry = ''present'' then Suc p else p,
             if in_status entry = ''present'' then a else Suc a) = (st', bad', ids', p', a')"
      by (simp add: markRecord_step)
    from Cons.IH [OF this] True show ?thesis by auto
  qed
qed

lemma createAttendanceSession_valid:
  assumes "sq_sessionType req = Some ty" and "ty \<in> set [''morning'', ''evening'']"
    and "sq_records req = Some records"
    and "attendanceDateOf now (sq_date req) = Some attendanceDate"
    and "findSession st ty attendanceDate = None"
    and "markRecords records (st, [], [], 0, 0) = (st1, bad, ids, p, a)"
  shows "createAttendanceSession toLocale now req st =
           (if bad \<noteq> []
            then (Inl (HttpError 400
                        (''Invalid students or students not in this dorm: ''
                           @ join '', '' (map idString bad))), st1)
            else (let session =
                        \<lparr>session_id = nextId st1, sessionType = ty, attendanceRecords = ids,
                         totalStudents = length records, presentCount = p, absentCount = a,
                         markedBy = ru_id (sq_user req), markedAt = Some attendanceDate,
                         session_notes = (case sq_notes req of None \<Rightarrow> [] | Some n \<Rightarrow> n),
                         isCompleted = False\<rparr>;
                      st2 = st1\<lparr>attendanceSessions := attendanceSessions st1 @ [session],
                                nextId := Suc (nextId st1)\<rparr>
                  in (Inr session,
                      sendNotifications now
                        (getUserIdsByRoles st2 [''admin'', ''warden''] (ru_id (sq_user req)))
                        ((if ty = ''morning'' then ''Morning'' else ''Evening'') @ '' Attendance Marked'')
                        (firstName (sq_user req) @ '' '' @ lastName (sq_user req)
                           @ '' marked attendance for '' @ showNat (length records)
                           @ '' students ('' @ showNat p @ '' present, ''
                           @ showNat a @ '' absent)'')
                        ''info'' st2)))"
proof -
  from assms(2) have "ty \<noteq> []" by auto
  with assms show ?thesis
    by (simp add: createAttendanceSession_def Let_def)
qed

lemma notifyLowStock_eq:
  "notifyLowStock f now item usr st =
     (if coveredBy (startOfDay now) (notifications st) (user_id usr, ''Low Stock: '' @ name item)
      then st
      else st\<lparr>notifications := notifications st @ [lowStockNotice f now item usr]\<rparr>)"
proof -
  have "(find (\<lambda>n. recipient n = user_id usr \<and> title n = ''Low Stock: '' @ name item
                        \<and> startOfDay now \<le> createdAt n) (notifications st) = None)
        \<longleftrightarrow> \<not> coveredBy (startOfDay now) (notifications st) (user_id usr, ''Low Stock: '' @ name item)"
    by (auto simp add: coveredBy_def find_None_iff list_ex_iff)
  then show ?thesis
    unfolding notifyLowStock_def lowStockNotice_def createNotification_def Let_def
    by (cases "find (\<lambda>n. recipient n = user_id usr \<and> title n = ''Low Stock: '' @ name item
                        \<and> startOfDay now \<le> createdAt n) (notifications st)") auto
qed

lemma coveredBy_append:
  "coveredBy since (ns @ ms) key \<longleftrightarrow> coveredBy since ns key \<or> coveredBy since ms key"
  by (auto simp: coveredBy_def list_ex_iff)

lemma startOfDay_le: "startOfDay now \<le> now"
  by (simp add: startOfDay_def msPerDay_def)

lemma lowStockNotice_key:
  "recipient (lowStockNotice f now item usr) = user_id usr"
  "title (lowStockNotice f now item usr) = ''Low Stock: '' @ name item"
  "createdAt (lowStockNotice f now item usr) = now"
  "type (lowStockNotice f now item usr) = (if currentStock item = 0 then ''alert'' else ''warning'')"
  "read (lowStockNotice f now item usr) = False"
  by (simp_all add: lowStockNotice_def)

lemma fresh_Nil: "fresh now ns []"
  by (simp add: fresh_def)

lemma fresh_append:
  assumes "fresh now ns new1" and "fresh now (ns @ new1) new2"
  shows "fresh now ns (new1 @ new2)"
proof -
  have disjoint: "(recipient a, title a) \<noteq> (recipient b, title b)"
    if "a \<in> set new1" "b \<in> set new2" for a b
  proof
    assume eq: "(recipient a, title a) = (recipient b, title b)"
    from assms(1) that(1) have "createdAt a = now" by (simp add: fresh_def list_all_iff)
    with startOfDay_le [of now] that(1) eq
    have "coveredBy (startOfDay now) (ns @ new1) (recipient b, title b)"
      by (auto simp: coveredBy_def list_ex_iff)
    with assms(2) that(2) show False by (simp add: fresh_def list_all_iff)
  qed
  from assms disjoint show ?thesis
    by (auto simp: fresh_def coveredBy_append list_all_iff)
qed


lemma notifyUsers_new:
  "\<exists>new. notifyUsers f now item us st = st\<lparr>notifications := notifications st @ new\<rparr>
      \<and> fresh now (notifications st) new
      \<and> (\<forall>n \<in> set new. \<exists>u \<in> set us. n = lowStockNotice f now item u)
      \<and> (\<forall>u \<in> set us. coveredBy (startOfDay now) (notifications st @ new)
                            (user_id u, ''Low Stock: '' @ name item))"
proof (induction us arbitrary: st)
  case Nil
  show ?case by (intro exI [of _ "[]"]) (simp add: fresh_Nil)
next
  case (Cons usr us)
  let ?key = "(user_id usr, ''Low Stock: '' @ name item)"
  let ?ns = "notifications st"
  define new1 where "new1 = (if coveredBy (startOfDay now) ?ns ?key then []
                             else [lowStockNotice f now item usr])"
  have step: "notifyLowStock f now item usr st = st\<lparr>notifications := ?ns @ new1\<rparr>"
    by (simp add: notifyLowStock_eq new1_def)
  have fresh1: "fresh now ?ns new1"
    by (simp add: new1_def fresh_def lowStockNotice_key)
  have covered1: "coveredBy (startOfDay now) (?ns @ new1) ?key"
    using startOfDay_le [of now]
    by (simp add: new1_def coveredBy_append) (simp add: coveredBy_def lowStockNotice_key)
  have from1: "\<forall>n \<in> set new1. n = lowStockNotice f now item usr"
    by (simp add: new1_def)
  from Cons.IH [of "st\<lparr>notifications := ?ns @ new1\<rparr>"] obtain new2 where
    r: "notifyUsers f now item us (st\<lparr>notifications := ?ns @ new1\<rparr>)
          = st\<lparr>notifications := (?ns @ new1) @ new2\<rparr>"
    "fresh now (?ns @ new1) new2"
    "\<forall>n \<in> set new2. \<exists>u \<in> set us. n = lowStockNotice f now item u"
    "\<forall>u \<in> set us. coveredBy (startOfDay now) ((?ns @ new1) @ new2)
                        (user_id u, ''Low Stock: '' @ name item)"
    by auto
  show ?case
  proof (intro exI [of _ "new1 @ new2"] conjI)
    show "notifyUsers f now item (usr # us) st = st\<lparr>notifications := ?ns @ new1 @ new2\<rparr>"
      using step r(1) by simp
    show "fresh now ?ns (new1 @ new2)" using fresh1 r(2) by (rule fresh_append)
    show "\<forall>n \<in> set (new1 @ new2). \<exists>u \<in> set (usr # us). n = lowStockNotice f now item u"
      using from1 r(3) by auto
    show "\<forall>u \<in> set (usr # us). coveredBy (startOfDay now) (?ns @ new1 @ new2)
                                    (user_id u, ''Low Stock: '' @ name item)"
      using covered1 r(4) by (auto simp: coveredBy_append)
  qed
qed

lemma notifyItems_new:
  "\<exists>new. notifyItems f now its us st = st\<lparr>notifications := notifications st @ new\<rparr>
      \<and> fresh now (notifications st) new
      \<and> (\<forall>n \<in> set new. \<exists>item \<in> set its. \<exists>u \<in> set us. n = lowStockNotice f now item u)
      \<and> (\<forall>item \<in> set its. \<forall>u \<in> set us.
            coveredBy (startOfDay now) (notifications st @ new)
              (user_id u, ''Low Stock: '' @ name item))"
proof (induction its arbitrary: st)
  case Nil
  show ?case by (intro exI [of _ "[]"]) (simp add: fresh_Nil)
next
  case (Cons item its)
  let ?ns = "notifications st"
  from notifyUsers_new [of f now item us st] obtain new1 where
    s: "notifyUsers f now item us st = st\<lparr>notifications := ?ns @ new1\<rparr>"
    "fresh now ?ns new1"
    "\<forall>n \<in> set new1. \<exists>u \<in> set us. n = lowStockNotice f now item u"
    "\<forall>u \<in> set us. coveredBy (startOfDay now) (?ns @ new1) (user_id u, ''Low Stock: '' @ name item)"
    by blast
  from Cons.IH [of "st\<lparr>notifications := ?ns @ new1\<rparr>"] obtain new2 where
    r: "notifyItems f now its us (st\<lparr>notifications := ?ns @ new1\<rparr>)
          = st\<lparr>notifications := (?ns @ new1) @ new2\<rparr>"
    "fresh now (?ns @ new1) new2"
    "\<forall>n \<in> set new2. \<exists>i \<in> set its. \<exists>u \<in> set us. n = lowStockNotice f now i u"
    "\<forall>i \<in> set its. \<forall>u \<in> set us.
        coveredBy (startOfDay now) ((?ns @ new1) @ new2) (user_id u, ''Low Stock: '' @ name i)"
    by auto
  show ?case
  proof (intro exI [of _ "new1 @ new2"] conjI)
    show "notifyItems f now (item # its) us st = st\<lparr>notifications := ?ns @ new1 @ new2\<rparr>"
      using s(1) r(1) by simp
    show "fresh now ?ns (new1 @ new2)" using s(2) r(2) by (rule fresh_append)
    show "\<forall>n \<in> set (new1 @ new2). \<exists>i \<in> set (item # its). \<exists>u \<in> set us.
            n = lowStockNotice f now i u"
      using s(3) r(3) by auto
    show "\<forall>i \<in> set (item # its). \<forall>u \<in> set us.
            coveredBy (startOfDay now) (?ns @ new1 @ new2) (user_id u, ''Low Stock: '' @ name i)"
      using s(4) r(4) by (auto simp: coveredBy_append)
  qed
qed

lemma notifyUsers_covered:
  assumes "\<forall>u \<in> set us. coveredBy (startOfDay now) (notifications st)
                            (user_id u, ''Low Stock: '' @ name item)"
  shows "notifyUsers f now item us st = st"
  using assms by (induction us) (simp_all add: notifyLowStock_eq)

lemma notifyItems_covered:
  assumes "\<forall>item \<in> set its. \<forall>u \<in> set us.
             coveredBy (startOfDay now) (notifications st) (user_id u, ''Low Stock: '' @ name item)"
  shows "notifyItems f now its us st = st"
  using assms by (induction its) (simp_all add: notifyUsers_covered)

lemma startOfDay_calendarDay: "startOfDay t = calendarDay t * msPerDay"
  by (simp add: startOfDay_def calendarDay_def minus_mod_eq_div_mult)

section \<open>Debits\<close>

text \<open>
  C1. A debit is to leave an item with its old stock minus the computed amount, not
  negative, and is not to be applied when the amount exceeds the stock. The manual
  recording does not keep this when two lines of a request name one item. It debits the
  documents it loaded during its checks, so both lines are checked against the stock
  before any debit and the second save overwrites the first. With 20 kg of dhal in the
  store and an attendance of 25, a request for the breakfast of day 1 with two lines of
  5 kg of dhal per 10 students, 12.5 kg each, is accepted, and its usage record shows two
  deductions of 12.5 kg; the first debit leaves 7.5 kg, and the second, applied to a stock
  of 7.5 kg that its 12.5 kg exceed, leaves 7.5 kg again. The scheduled job, which loads
  the item anew for every plan entry, debits the first of two such entries and refuses the
  second with an error naming the item, the 7.50 kg available and the 12.50 kg required.
\<close>

theorem repeated_line_overwrites:
  "checkItems exampleStore 25 [dhalLine, dhalLine] ([], [], [])
     = ([\<lparr>usedItemId = 1, recordedQuantity = 5, recordedForStudents = 10,
          actualQuantityDeducted = 25 / 2\<rparr>,
         \<lparr>usedItemId = 1, recordedQuantity = 5, recordedForStudents = 10,
          actualQuantityDeducted = 25 / 2\<rparr>],
        [(dhal, 25 / 2), (dhal, 25 / 2)], [])
   \<and> (\<exists>u st'. recordInventoryUsage dayNumber (86400000 + 39600000)
               (exampleRequest [dhalLine, dhalLine]) exampleStore = (Inr u, st')
       \<and> map actualQuantityDeducted (items u) = [25 / 2, 25 / 2]
       \<and> st' = (deduct (86400000 + 39600000) (dhal, 25 / 2)
                  (deduct (86400000 + 39600000) (dhal, 25 / 2) exampleStore))
                 \<lparr>inventoryUsages := [u]\<rparr>)
   \<and> map currentStock (inventoryItems exampleStore) = [20, 10]
   \<and> map currentStock (inventoryItems (deduct (86400000 + 39600000) (dhal, 25 / 2) exampleStore))
       = [15 / 2, 10]
   \<and> map currentStock
        (inventoryItems (deduct (86400000 + 39600000) (dhal, 25 / 2)
                           (deduct (86400000 + 39600000) (dhal, 25 / 2) exampleStore)))
       = [15 / 2, 10]
   \<and> (\<exists>st1. consumeItems (86400000 + 25200000) ''breakfast'' 25 [dhalItem, dhalItem]
                (exampleStore, [], [])
              = (st1,
                 [''breakfast: Insufficient stock for Dhal. Available: 7.50 kg, Required: 12.50 kg (Attendance: 25)''],
                 [\<lparr>usedItemId = 1, recordedQuantity = 5, recordedForStudents = 10,
                   actualQuantityDeducted = 25 / 2\<rparr>])
          \<and> map currentStock (inventoryItems st1) = [15 / 2, 10])"
proof -
  let ?now = "86400000 + 39600000 :: int"
  let ?line = "\<lparr>usedItemId = 1, recordedQuantity = 5, recordedForStudents = 10,
                 actualQuantityDeducted = 25 / 2\<rparr>"
  let ?req = "exampleRequest [dhalLine, dhalLine]"
  have fd: "findById exampleStore 1 = Some dhal"
    by (simp add: findById_def example_defs)
  note q = example_quantities(1)
  have dl: "rq_inventoryItemId dhalLine = Some 1" "rq_recordedQuantity dhalLine = Some 5"
    "rq_recordedForStudents dhalLine = Some 10" "(10::nat) = 1 \<or> (10::nat) = 10"
    by (simp_all add: dhalLine_def)
  have enough: "\<not> currentStock dhal < quantityToConsume 5 10 25"
    by (simp add: q dhal_def)
  have checked: "checkItems exampleStore 25 [dhalLine, dhalLine] ([], [], [])
               = ([?line, ?line], [(dhal, 25 / 2), (dhal, 25 / 2)], [])"
    using checkItem_ok [OF dl fd enough, of "[]" "[]" "[]"]
      checkItem_ok [OF dl fd enough, of "[?line]" "[(dhal, 25 / 2)]" "[]"]
    by (simp add: q)
  have att: "getAttendanceForDate exampleStore
               (attendanceDateFor ''breakfast'' (startOfDay (86400000 + 36000000))) ''evening'' = Some 25"
    by (simp add: getAttendanceForDate_def findSession_def example_defs attendanceDateFor_def
        previousDay_def inDay_def startOfDay_def endOfDay_def msPerDay_def)
  have r: "rq_date ?req = ValidDate (86400000 + 36000000)" "rq_mealType ?req = Some ''breakfast''"
    "''breakfast'' \<in> set [''breakfast'', ''lunch'', ''dinner'']"
    "rq_items ?req = Some [dhalLine, dhalLine]" "[dhalLine, dhalLine] \<noteq> []"
    by (simp_all add: exampleRequest_def)
  let ?u = "\<lparr>date = startOfDay (86400000 + 36000000), mealType = ''breakfast'',
              items = [?line, ?line], attendanceCount = 25,
              attendanceSessionId =
                map_option session_id
                  (findSession exampleStore ''evening''
                     (attendanceDateFor ''breakfast'' (startOfDay (86400000 + 36000000)))),
              recordedBy = rq_user ?req,
              usageNotes = (case rq_notes ?req of None \<Rightarrow> [] | Some n \<Rightarrow> n)\<rparr>"
  let ?v = "?u\<lparr>usageNotes := trim (usageNotes ?u)\<rparr>"
  let ?st1 = "deduct ?now (dhal, 25 / 2) (deduct ?now (dhal, 25 / 2) exampleStore)"
  have all: "deductAll ?now [(dhal, 25 / 2), (dhal, 25 / 2)] exampleStore = ?st1" by simp
  have valid: "validUsage ?v"
    by (simp add: validUsage_def validUsageItem_def exampleRequest_def trim_def)
  have "inventoryUsages (deductAll ?now [(dhal, 25 / 2), (dhal, 25 / 2)] exampleStore)
          = inventoryUsages exampleStore"
    using deductAll_frame by blast
  then have empty: "inventoryUsages ?st1 = []"
    unfolding all by (simp add: exampleStore_def)
  have "createUsage ?u ?st1 = Some (?v, ?st1\<lparr>inventoryUsages := inventoryUsages ?st1 @ [?v]\<rparr>)"
    using valid by (simp add: createUsage_def Let_def)
  then have created: "createUsage ?u ?st1 = Some (?v, ?st1\<lparr>inventoryUsages := [?v]\<rparr>)"
    unfolding empty by simp
  from recordInventoryUsage_checked [OF r att checked, of dayNumber ?now] created
  have reply: "recordInventoryUsage dayNumber ?now ?req exampleStore
                 = (Inr ?v, ?st1\<lparr>inventoryUsages := [?v]\<rparr>)"
    unfolding all by simp
  have lines: "map actualQuantityDeducted (items ?v) = [25 / 2, 25 / 2]" by simp
  have manual: "\<exists>u st'. recordInventoryUsage dayNumber ?now ?req exampleStore = (Inr u, st')
       \<and> map actualQuantityDeducted (items u) = [25 / 2, 25 / 2]
       \<and> st' = ?st1\<lparr>inventoryUsages := [u]\<rparr>"
    by (intro exI [of _ ?v] exI [of _ "?st1\<lparr>inventoryUsages := [?v]\<rparr>"] conjI reply lines refl)
  have before: "map currentStock (inventoryItems exampleStore) = [20, 10]"
    by (simp add: example_defs)
  have once: "map currentStock (inventoryItems (deduct ?now (dhal, 25 / 2) exampleStore)) = [15 / 2, 10]"
    by (simp add: deduct_def saveItem_def example_defs example_stocks)
  have twice: "map currentStock (inventoryItems ?st1) = [15 / 2, 10]"
    by (simp add: deduct_def saveItem_def example_defs example_stocks)
  let ?t = "86400000 + 25200000 :: int"
  let ?left = "dhal\<lparr>currentStock := 15 / 2, lastUpdated := ?t\<rparr>"
  let ?s1 = "saveItem ?left exampleStore"
  have found1: "findById exampleStore (inventoryItemId dhalItem) = Some dhal"
    by (simp add: findById_def example_defs)
  have qd: "quantityToConsume (quantity dhalItem) (forStudentsOf dhalItem) 25 = 25 / 2"
    by (simp add: dhalItem_def forStudentsOf_def q)
  have enough1: "\<not> currentStock dhal < quantityToConsume (quantity dhalItem) (forStudentsOf dhalItem) 25"
    unfolding qd by (simp add: dhal_def)
  have left: "dhal\<lparr>currentStock := double (currentStock dhal - 25 / 2), lastUpdated := ?t\<rparr> = ?left"
    by (simp add: dhal_def example_stocks)
  have fields: "item_id dhal = 1" "quantity dhalItem = 5" "forStudentsOf dhalItem = 10"
    by (simp_all add: dhal_def dhalItem_def forStudentsOf_def)
  have step1: "consumeItem ?t ''breakfast'' 25 dhalItem (exampleStore, [], []) = (?s1, [], [?line])"
    using consumeItem_debit [OF found1 enough1, of ?t "''breakfast''" "[]" "[]"]
    unfolding qd q left fields by simp
  have found2: "findById ?s1 (inventoryItemId dhalItem) = Some ?left"
    using found1 by (simp add: findById_saveItem dhal_def)
  have short2: "currentStock ?left < quantityToConsume (quantity dhalItem) (forStudentsOf dhalItem) 25"
    unfolding qd by simp
  have msg: "''breakfast'' @ '': '' @ insufficientStock ?left (25 / 2)
               @ '' (Attendance: '' @ showNat 25 @ '')''
             = ''breakfast: Insufficient stock for Dhal. Available: 7.50 kg, Required: 12.50 kg (Attendance: 25)''"
    by (simp add: insufficientStock_def dhal_def toFixed2_def showNat.simps digitChar_def)
  have step2: "consumeItem ?t ''breakfast'' 25 dhalItem (?s1, [], [?line])
                 = (?s1,
                    [''breakfast: Insufficient stock for Dhal. Available: 7.50 kg, Required: 12.50 kg (Attendance: 25)''],
                    [?line])"
    using consumeItem_short [OF found2 short2, of ?t "''breakfast''" "[]" "[?line]"]
    unfolding qd q fields msg by simp
  have loop: "consumeItems ?t ''breakfast'' 25 [dhalItem, dhalItem] (exampleStore, [], [])
                = (?s1,
                   [''breakfast: Insufficient stock for Dhal. Available: 7.50 kg, Required: 12.50 kg (Attendance: 25)''],
                   [?line])"
    unfolding consumeItems.simps step1 step2 by (rule refl)
  have stock: "map currentStock (inventoryItems ?s1) = [15 / 2, 10]"
    by (simp add: saveItem_def example_defs)
  have scheduled: "\<exists>st1. consumeItems ?t ''breakfast'' 25 [dhalItem, dhalItem] (exampleStore, [], [])
              = (st1,
                 [''breakfast: Insufficient stock for Dhal. Available: 7.50 kg, Required: 12.50 kg (Attendance: 25)''],
                 [?line])
          \<and> map currentStock (inventoryItems st1) = [15 / 2, 10]"
    by (intro exI [of _ ?s1] conjI loop stock)
  show ?thesis by (intro conjI checked manual before once twice scheduled)
qed

section \<open>Where the attendance comes from\<close>

text \<open>
  C2. For breakfast and lunch the attendance is that of the evening session of the
  previous calendar day, for dinner that of the evening session of the same calendar day,
  the session being the one whose \<open>markedAt\<close> lies within 00:00:00.000 and 23:59:59.999
  of that day. With \<open>k\<close> that day, both entry points are determined by the specified
  session. A scheduled run with a plan for the weekday changes nothing if there is no
  such session, or one with nobody present; otherwise it processes the plan's items with
  that session's present count, and the usage record it creates carries the count and the
  session's id. A manual recording with a date, that meal and at least one line answers
  404 if there is no such session; otherwise it checks its lines with that session's
  present count, and the usage record it creates carries the count and the session's id.
\<close>

theorem attendance_source:
  assumes "sourceDay mt d = Some k"
  shows "findSession st ''evening'' (attendanceDateFor mt d) = eveningSessionOn st k
       \<and> getAttendanceCount st ''evening'' (attendanceDateFor mt d)
           = map_option presentCount (eveningSessionOn st k)
       \<and> consumeInventoryForMeal now mt d st =
           (case findMealPlan st (dayNames ! getDay d) of
              None \<Rightarrow> st
            | Some plan \<Rightarrow>
                (case eveningSessionOn st k of
                   None \<Rightarrow> st
                 | Some s \<Rightarrow>
                     if presentCount s = 0 \<or> mealInventoryOf plan mt = [] then st
                     else
                       (case find (\<lambda>u. role u = ''admin'') (users st) of
                          None \<Rightarrow> st
                        | Some systemUser \<Rightarrow>
                            (case consumeItems now mt (presentCount s) (mealInventoryOf plan mt)
                                    (st, [], []) of
                               (st1, errors, usageItems) \<Rightarrow>
                                 (let st2 =
                                        (if usageItems \<noteq> []
                                         then (case createUsage
                                                      \<lparr>date = d, mealType = mt, items = usageItems,
                                                       attendanceCount = presentCount s,
                                                       attendanceSessionId = Some (session_id s),
                                                       recordedBy = user_id systemUser,
                                                       usageNotes = ''Automated deduction via cron job''\<rparr>
                                                      st1 of
                                                 Some (u, s') \<Rightarrow> s'
                                               | None \<Rightarrow> st1)
                                         else st1)
                                  in if errors \<noteq> []
                                     then notifyAdmins now mt (dayNames ! getDay d) errors st2
                                     else st2)))))
       \<and> (inventoryUsages (consumeInventoryForMeal now mt d st) = inventoryUsages st
            \<or> (\<exists>s u. eveningSessionOn st k = Some s
                   \<and> inventoryUsages (consumeInventoryForMeal now mt d st) = inventoryUsages st @ [u]
                   \<and> attendanceCount u = presentCount s
                   \<and> attendanceSessionId u = Some (session_id s)))
       \<and> (rq_date req = ValidDate d \<and> rq_mealType req = Some mt
            \<and> rq_items req = Some lines \<and> lines \<noteq> [] \<longrightarrow>
            getAttendanceForDate st (attendanceDateFor mt (startOfDay d)) ''evening''
              = map_option presentCount (eveningSessionOn st k)
            \<and> recordInventoryUsage toLocale now req st =
                (case eveningSessionOn st k of
                   None \<Rightarrow>
                     (Inl (HttpError 404
                            (''Attendance not found for evening session on ''
                               @ toLocale (attendanceDateFor mt (startOfDay d))
                               @ ''. Please record attendance first.'')),
                      st)
                 | Some s \<Rightarrow>
                     (case checkItems st (presentCount s) lines ([], [], []) of
                        (processedItems, inventoryUpdates, errors) \<Rightarrow>
                          if errors \<noteq> [] then (Inl (HttpError 400 (join ''; '' errors)), st)
                          else
                            (case createUsage
                                    \<lparr>date = startOfDay d, mealType = mt, items = processedItems,
                                     attendanceCount = presentCount s,
                                     attendanceSessionId = Some (session_id s),
                                     recordedBy = rq_user req,
                                     usageNotes = (case rq_notes req of None \<Rightarrow> [] | Some n \<Rightarrow> n)\<rparr>
                                    (deductAll now inventoryUpdates st) of
                               None \<Rightarrow> (Inl ValidationError, deductAll now inventoryUpdates st)
                             | Some (usageRecord, st2) \<Rightarrow> (Inr usageRecord, st2))))
            \<and> (\<forall>u st'. recordInventoryUsage toLocale now req st = (Inr u, st') \<longrightarrow>
                 (\<exists>s. eveningSessionOn st k = Some s \<and> attendanceCount u = presentCount s
                      \<and> attendanceSessionId u = Some (session_id s))))"
proof -
  note look = findSession_evening [OF assms, of st]
  have count: "getAttendanceCount st ''evening'' (attendanceDateFor mt d)
                 = map_option presentCount (eveningSessionOn st k)"
    unfolding getAttendanceCount_def look by (simp split: option.splits)
  let ?run = "\<lambda>plan s systemUser.
      (case consumeItems now mt (presentCount s) (mealInventoryOf plan mt) (st, [], []) of
         (st1, errors, usageItems) \<Rightarrow>
           (let st2 =
                  (if usageItems \<noteq> []
                   then (case createUsage
                                \<lparr>date = d, mealType = mt, items = usageItems,
                                 attendanceCount = presentCount s,
                                 attendanceSessionId = Some (session_id s),
                                 recordedBy = user_id systemUser,
                                 usageNotes = ''Automated deduction via cron job''\<rparr>
                                st1 of
                           Some (u, s') \<Rightarrow> s'
                         | None \<Rightarrow> st1)
                   else st1)
            in if errors \<noteq> []
               then notifyAdmins now mt (dayNames ! getDay d) errors st2
               else st2))"
  have run: "consumeInventoryForMeal now mt d st =
           (case findMealPlan st (dayNames ! getDay d) of
              None \<Rightarrow> st
            | Some plan \<Rightarrow>
                (case eveningSessionOn st k of
                   None \<Rightarrow> st
                 | Some s \<Rightarrow>
                     if presentCount s = 0 \<or> mealInventoryOf plan mt = [] then st
                     else
                       (case find (\<lambda>u. role u = ''admin'') (users st) of
                          None \<Rightarrow> st
                        | Some systemUser \<Rightarrow> ?run plan s systemUser)))"
  proof (cases "findMealPlan st (dayNames ! getDay d)")
    case None
    then show ?thesis by (simp add: consumeInventoryForMeal_def)
  next
    case plan: (Some plan)
    show ?thesis
    proof (cases "eveningSessionOn st k")
      case None
      with count have "getAttendanceCount st ''evening'' (attendanceDateFor mt d) = None" by simp
      with plan None show ?thesis by (simp add: consumeInventoryForMeal_def)
    next
      case s: (Some s)
      with count have c: "getAttendanceCount st ''evening'' (attendanceDateFor mt d)
                            = Some (presentCount s)" by simp
      from look s have fs: "findSession st ''evening'' (attendanceDateFor mt d) = Some s" by simp
      show ?thesis
      proof (cases "presentCount s = 0")
        case True
        with plan s c show ?thesis by (simp add: consumeInventoryForMeal_def)
      next
        case present: False
        show ?thesis
        proof (cases "mealInventoryOf plan mt = []")
          case True
          with plan s c present show ?thesis by (simp add: consumeInventoryForMeal_def Let_def)
        next
          case inventory: False
          show ?thesis
          proof (cases "find (\<lambda>u. role u = ''admin'') (users st)")
            case None
            with plan s c present inventory show ?thesis
              by (simp add: consumeInventoryForMeal_def Let_def)
          next
            case su: (Some systemUser)
            obtain st1 errors usageItems where
              ci: "consumeItems now mt (presentCount s) (mealInventoryOf plan mt) (st, [], [])
                     = (st1, errors, usageItems)"
              by (cases "consumeItems now mt (presentCount s) (mealInventoryOf plan mt) (st, [], [])")
                auto
            from consume_run [OF plan fs present inventory su ci]
            have "consumeInventoryForMeal now mt d st = ?run plan s systemUser"
              unfolding ci by simp
            with plan s present inventory su show ?thesis by simp
          qed
        qed
      qed
    qed
  qed
  from run_usages [of now mt d st]
  have used: "inventoryUsages (consumeInventoryForMeal now mt d st) = inventoryUsages st
            \<or> (\<exists>s u. eveningSessionOn st k = Some s
                   \<and> inventoryUsages (consumeInventoryForMeal now mt d st) = inventoryUsages st @ [u]
                   \<and> attendanceCount u = presentCount s
                   \<and> attendanceSessionId u = Some (session_id s))"
    unfolding look by blast
  have manual: "rq_date req = ValidDate d \<and> rq_mealType req = Some mt
            \<and> rq_items req = Some lines \<and> lines \<noteq> [] \<longrightarrow>
            getAttendanceForDate st (attendanceDateFor mt (startOfDay d)) ''evening''
              = map_option presentCount (eveningSessionOn st k)
            \<and> recordInventoryUsage toLocale now req st =
                (case eveningSessionOn st k of
                   None \<Rightarrow>
                     (Inl (HttpError 404
                            (''Attendance not found for evening session on ''
                               @ toLocale (attendanceDateFor mt (startOfDay d))
                               @ ''. Please record attendance first.'')),
                      st)
                 | Some s \<Rightarrow>
                     (case checkItems st (presentCount s) lines ([], [], []) of
                        (processedItems, inventoryUpdates, errors) \<Rightarrow>
                          if errors \<noteq> [] then (Inl (HttpError 400 (join ''; '' errors)), st)
                          else
                            (case createUsage
                                    \<lparr>date = startOfDay d, mealType = mt, items = processedItems,
                                     attendanceCount = presentCount s,
                                     attendanceSessionId = Some (session_id s),
                                     recordedBy = rq_user req,
                                     usageNotes = (case rq_notes req of None \<Rightarrow> [] | Some n \<Rightarrow> n)\<rparr>
                                    (deductAll now inventoryUpdates st) of
                               None \<Rightarrow> (Inl ValidationError, deductAll now inventoryUpdates st)
                             | Some (usageRecord, st2) \<Rightarrow> (Inr usageRecord, st2))))
            \<and> (\<forall>u st'. recordInventoryUsage toLocale now req st = (Inr u, st') \<longrightarrow>
                 (\<exists>s. eveningSessionOn st k = Some s \<and> attendanceCount u = presentCount s
                      \<and> attendanceSessionId u = Some (session_id s)))"
  proof (intro impI conjI allI)
    assume rq: "rq_date req = ValidDate d \<and> rq_mealType req = Some mt
                  \<and> rq_items req = Some lines \<and> lines \<noteq> []"
    then have r: "rq_date req = ValidDate d" "rq_mealType req = Some mt"
      "rq_items req = Some lines" "lines \<noteq> []" by simp_all
    have "sourceDay mt (startOfDay d) = Some k"
      using assms unfolding sourceDay_def calendarDay_startOfDay .
    note look' = findSession_evening [OF this, of st]
    show att: "getAttendanceForDate st (attendanceDateFor mt (startOfDay d)) ''evening''
                 = map_option presentCount (eveningSessionOn st k)"
      unfolding getAttendanceForDate_def look' ..
    from assms have meal: "mt \<in> set [''breakfast'', ''lunch'', ''dinner'']"
      by (auto simp: sourceDay_def split: if_splits)
    then have ne: "mt \<noteq> []" by auto
    show "recordInventoryUsage toLocale now req st =
                (case eveningSessionOn st k of
                   None \<Rightarrow>
                     (Inl (HttpError 404
                            (''Attendance not found for evening session on ''
                               @ toLocale (attendanceDateFor mt (startOfDay d))
                               @ ''. Please record attendance first.'')),
                      st)
                 | Some s \<Rightarrow>
                     (case checkItems st (presentCount s) lines ([], [], []) of
                        (processedItems, inventoryUpdates, errors) \<Rightarrow>
                          if errors \<noteq> [] then (Inl (HttpError 400 (join ''; '' errors)), st)
                          else
                            (case createUsage
                                    \<lparr>date = startOfDay d, mealType = mt, items = processedItems,
                                     attendanceCount = presentCount s,
                                     attendanceSessionId = Some (session_id s),
                                     recordedBy = rq_user req,
                                     usageNotes = (case rq_notes req of None \<Rightarrow> [] | Some n \<Rightarrow> n)\<rparr>
                                    (deductAll now inventoryUpdates st) of
                               None \<Rightarrow> (Inl ValidationError, deductAll now inventoryUpdates st)
                             | Some (usageRecord, st2) \<Rightarrow> (Inr usageRecord, st2))))"
    proof (cases "eveningSessionOn st k")
      case None
      with r meal ne att show ?thesis
        by (simp add: recordInventoryUsage_def Let_def)
    next
      case s: (Some s)
      with att have a: "getAttendanceForDate st (attendanceDateFor mt (startOfDay d)) ''evening''
                          = Some (presentCount s)" by simp
      obtain processed updates errors where
        ci: "checkItems st (presentCount s) lines ([], [], []) = (processed, updates, errors)"
        by (cases "checkItems st (presentCount s) lines ([], [], [])") auto
      from recordInventoryUsage_checked [OF r(1,2) meal r(3,4) a ci, of toLocale now]
      show ?thesis unfolding look' s by (simp add: ci)
    qed
    fix u st' assume "recordInventoryUsage toLocale now req st = (Inr u, st')"
    from recordInventoryUsage_source [OF this r(1,2)]
    show "\<exists>s. eveningSessionOn st k = Some s \<and> attendanceCount u = presentCount s
               \<and> attendanceSessionId u = Some (session_id s)"
      unfolding look' .
  qed
  show ?thesis by (intro conjI look count run used manual)
qed

theorem attendance_source_witness:
  "(\<exists>u. inventoryUsages (consumeInventoryForMeal 111600000 ''breakfast'' 86400000 exampleStore) = [u]
        \<and> attendanceCount u = 25 \<and> attendanceSessionId u = Some 50
        \<and> map actualQuantityDeducted (items u) = [25 / 2])
   \<and> map currentStock
        (inventoryItems (consumeInventoryForMeal 111600000 ''breakfast'' 86400000 exampleStore))
       = [15 / 2, 10]
   \<and> (\<exists>u. inventoryUsages (consumeInventoryForMeal 763200000 ''dinner'' 763200000 laterStore) = [u]
        \<and> attendanceCount u = 20 \<and> attendanceSessionId u = Some 52
        \<and> map actualQuantityDeducted (items u) = [4])
   \<and> map currentStock
        (inventoryItems (consumeInventoryForMeal 763200000 ''dinner'' 763200000 laterStore))
       = [16, 10]
   \<and> consumeInventoryForMeal 1321200000 ''breakfast'' 1296000000 exampleStore = exampleStore
   \<and> consumeInventoryForMeal 716400000 ''breakfast'' 691200000 exampleStore = exampleStore
   \<and> (\<exists>u st'. recordInventoryUsage dayNumber 126000000 (exampleRequest [dhalLine]) exampleStore
                 = (Inr u, st')
        \<and> attendanceCount u = 25 \<and> attendanceSessionId u = Some 50
        \<and> map actualQuantityDeducted (items u) = [25 / 2]
        \<and> map currentStock (inventoryItems st') = [15 / 2, 10])
   \<and> (\<exists>m. recordInventoryUsage dayNumber 691200000
              ((exampleRequest [dhalLine])\<lparr>rq_date := ValidDate 691200000\<rparr>) exampleStore
            = (Inl (HttpError 404 m), exampleStore))"
proof -
  let ?late = "(exampleRequest [dhalLine])\<lparr>rq_date := ValidDate 691200000\<rparr>"
  let ?admin = "\<lparr>user_id = 100, role = ''admin''\<rparr>"
  let ?line = "\<lparr>usedItemId = 1, recordedQuantity = 5, recordedForStudents = 10,
                 actualQuantityDeducted = 25 / 2\<rparr>"
  let ?line8 = "\<lparr>usedItemId = 1, recordedQuantity = 2, recordedForStudents = 10,
                  actualQuantityDeducted = 4\<rparr>"
  let ?e = "''breakfast: Insufficient stock for Rice. Available: 10.00 kg, Required: 12.50 kg (Attendance: 25)''"
  let ?left = "dhal\<lparr>currentStock := 15 / 2, lastUpdated := 111600000\<rparr>"
  let ?left8 = "dhal\<lparr>currentStock := 16, lastUpdated := 763200000\<rparr>"
  let ?s1 = "saveItem ?left exampleStore"
  let ?s8 = "saveItem ?left8 laterStore"
  let ?dinner = "\<lparr>inventoryItemId = 1, quantity = 2, forStudents = None\<rparr>"
  have days: "sourceDay ''breakfast'' 86400000 = Some 0" "sourceDay ''dinner'' 763200000 = Some 8"
    "sourceDay ''breakfast'' 1296000000 = Some 14" "sourceDay ''breakfast'' 691200000 = Some 7"
    "sourceDay ''breakfast'' (86400000 + 36000000) = Some 0"
    by (simp_all add: sourceDay_def calendarDay_def msPerDay_def)
  have sessions: "eveningSessionOn exampleStore 0 = Some eveningOfDay0"
    "eveningSessionOn exampleStore 14 = Some eveningOfDay14"
    "eveningSessionOn exampleStore 7 = None"
    "eveningSessionOn laterStore 8 = Some eveningOfDay8"
    by (simp_all add: eveningSessionOn_def laterStore_def example_defs eveningOfDay8_def)
  have present: "presentCount eveningOfDay0 = 25" "presentCount eveningOfDay14 = 0"
    "presentCount eveningOfDay8 = 20" "session_id eveningOfDay0 = 50" "session_id eveningOfDay8 = 52"
    by (simp_all add: eveningOfDay0_def eveningOfDay14_def eveningOfDay8_def)
  have plans: "findMealPlan exampleStore (dayNames ! getDay 86400000) = Some fridayPlan"
    "findMealPlan laterStore (dayNames ! getDay 763200000) = Some fridayPlan"
    "findMealPlan exampleStore (dayNames ! getDay 1296000000) = Some fridayPlan"
    "findMealPlan exampleStore (dayNames ! getDay 691200000) = Some fridayPlan"
    by (simp_all add: findMealPlan_def laterStore_def example_defs dayNames_def getDay_def msPerDay_def)
  have inventory: "mealInventoryOf fridayPlan ''breakfast'' = [dhalItem, riceItem]"
    "mealInventoryOf fridayPlan ''dinner'' = [?dinner]"
    by (simp_all add: mealInventoryOf_def fridayPlan_def)
  have go: "(presentCount eveningOfDay0 = 0 \<or> mealInventoryOf fridayPlan ''breakfast'' = []) = False"
    "(presentCount eveningOfDay8 = 0 \<or> mealInventoryOf fridayPlan ''dinner'' = []) = False"
    "(presentCount eveningOfDay14 = 0 \<or> mealInventoryOf fridayPlan ''breakfast'' = []) = True"
    by (simp_all add: present inventory)
  have admins: "find (\<lambda>u. role u = ''admin'') (users exampleStore) = Some ?admin"
    "find (\<lambda>u. role u = ''admin'') (users laterStore) = Some ?admin"
    by (simp_all add: laterStore_def exampleStore_def)
  have lists: "([?line] \<noteq> []) = True" "([?line8] \<noteq> []) = True" "([?e] \<noteq> []) = True"
    "(([]::string list) \<noteq> []) = False"
    by simp_all

  \<comment> \<open>the breakfast of day 1: the evening of day 0\<close>
  have found1: "findById exampleStore (inventoryItemId dhalItem) = Some dhal"
    by (simp add: findById_def example_defs)
  have q1: "quantityToConsume (quantity dhalItem) (forStudentsOf dhalItem) 25 = 25 / 2"
    "quantityToConsume (quantity riceItem) (forStudentsOf riceItem) 25 = 25 / 2"
    by (simp_all add: dhalItem_def riceItem_def forStudentsOf_def example_quantities)
  have enough1: "\<not> currentStock dhal < quantityToConsume (quantity dhalItem) (forStudentsOf dhalItem) 25"
    unfolding q1 by (simp add: dhal_def)
  have left: "dhal\<lparr>currentStock := double (currentStock dhal - 25 / 2), lastUpdated := 111600000\<rparr> = ?left"
    by (simp add: dhal_def example_stocks)
  have fields: "item_id dhal = 1" "quantity dhalItem = 5" "forStudentsOf dhalItem = 10"
    by (simp_all add: dhal_def dhalItem_def forStudentsOf_def)
  have step1: "consumeItem 111600000 ''breakfast'' 25 dhalItem (exampleStore, [], []) = (?s1, [], [?line])"
    using consumeItem_debit [OF found1 enough1, of 111600000 "''breakfast''" "[]" "[]"]
    unfolding q1 example_quantities left fields by simp
  have "findById exampleStore (inventoryItemId riceItem) = Some rice"
    by (simp add: findById_def example_defs)
  then have found2: "findById ?s1 (inventoryItemId riceItem) = Some rice"
    by (simp add: findById_saveItem rice_def dhal_def)
  have short2: "currentStock rice < quantityToConsume (quantity riceItem) (forStudentsOf riceItem) 25"
    unfolding q1 by (simp add: rice_def)
  have msg: "''breakfast'' @ '': '' @ insufficientStock rice (25 / 2)
               @ '' (Attendance: '' @ showNat 25 @ '')'' = ?e"
    by (simp add: insufficientStock_def rice_def toFixed2_def showNat.simps digitChar_def)
  have step2: "consumeItem 111600000 ''breakfast'' 25 riceItem (?s1, [], [?line]) = (?s1, [?e], [?line])"
    using consumeItem_short [OF found2 short2, of 111600000 "''breakfast''" "[]" "[?line]"]
    unfolding q1 example_quantities fields msg by simp
  have loop1: "consumeItems 111600000 ''breakfast'' (presentCount eveningOfDay0)
                 (mealInventoryOf fridayPlan ''breakfast'') (exampleStore, [], [])
                = (?s1, [?e], [?line])"
    unfolding present inventory consumeItems.simps step1 step2 by (rule refl)
  let ?u1 = "\<lparr>date = 86400000, mealType = ''breakfast'', items = [?line],
               attendanceCount = presentCount eveningOfDay0,
               attendanceSessionId = Some (session_id eveningOfDay0),
               recordedBy = user_id ?admin,
               usageNotes = ''Automated deduction via cron job''\<rparr>"
  have created1: "createUsage ?u1 ?s1 = Some (?u1, ?s1\<lparr>inventoryUsages := [?u1]\<rparr>)"
    by (simp add: createUsage_def Let_def cronNotes validUsage_def validUsageItem_def
        saveItem_frame exampleStore_def)
  note t1 = attendance_source [OF days(1), where st = exampleStore and now = 111600000]
  note run1 = t1 [THEN conjunct2, THEN conjunct2, THEN conjunct1,
      unfolded plans option.case sessions go if_False admins loop1 prod.case Let_def lists
        if_True created1]
  have a: "\<exists>u. inventoryUsages (consumeInventoryForMeal 111600000 ''breakfast'' 86400000 exampleStore) = [u]
        \<and> attendanceCount u = 25 \<and> attendanceSessionId u = Some 50
        \<and> map actualQuantityDeducted (items u) = [25 / 2]"
    unfolding run1
    by (intro exI [of _ ?u1]) (simp add: notifyAdmins_eq present)
  have a': "map currentStock
        (inventoryItems (consumeInventoryForMeal 111600000 ''breakfast'' 86400000 exampleStore))
       = [15 / 2, 10]"
    unfolding run1 by (simp add: notifyAdmins_eq saveItem_def example_defs)

  \<comment> \<open>the dinner of day 8: the evening of day 8\<close>
  have found8: "findById laterStore (inventoryItemId ?dinner) = Some dhal"
    by (simp add: findById_def laterStore_def example_defs)
  have q8: "quantityToConsume (quantity ?dinner) (forStudentsOf ?dinner) 20 = 4"
    by (simp add: forStudentsOf_def example_quantities)
  have enough8: "\<not> currentStock dhal < quantityToConsume (quantity ?dinner) (forStudentsOf ?dinner) 20"
    unfolding q8 by (simp add: dhal_def)
  have left8: "dhal\<lparr>currentStock := double (currentStock dhal - 4), lastUpdated := 763200000\<rparr> = ?left8"
    by (simp add: dhal_def example_stocks)
  have fields8: "quantity ?dinner = 2" "forStudentsOf ?dinner = 10"
    by (simp_all add: forStudentsOf_def)
  have step8: "consumeItem 763200000 ''dinner'' 20 ?dinner (laterStore, [], []) = (?s8, [], [?line8])"
    using consumeItem_debit [OF found8 enough8, of 763200000 "''dinner''" "[]" "[]"]
    unfolding q8 example_quantities left8 fields8 fields by simp
  have loop8: "consumeItems 763200000 ''dinner'' (presentCount eveningOfDay8)
                 (mealInventoryOf fridayPlan ''dinner'') (laterStore, [], [])
                = (?s8, [], [?line8])"
    unfolding present inventory consumeItems.simps step8 by (rule refl)
  let ?u8 = "\<lparr>date = 763200000, mealType = ''dinner'', items = [?line8],
               attendanceCount = presentCount eveningOfDay8,
               attendanceSessionId = Some (session_id eveningOfDay8),
               recordedBy = user_id ?admin,
               usageNotes = ''Automated deduction via cron job''\<rparr>"
  have created8: "createUsage ?u8 ?s8 = Some (?u8, ?s8\<lparr>inventoryUsages := [?u8]\<rparr>)"
    by (simp add: createUsage_def Let_def cronNotes validUsage_def validUsageItem_def
        saveItem_frame laterStore_def exampleStore_def)
  note t8 = attendance_source [OF days(2), where st = laterStore and now = 763200000]
  note run8 = t8 [THEN conjunct2, THEN conjunct2, THEN conjunct1,
      unfolded plans option.case sessions go if_False admins loop8 prod.case Let_def lists
        if_True created8]
  have b: "\<exists>u. inventoryUsages (consumeInventoryForMeal 763200000 ''dinner'' 763200000 laterStore) = [u]
        \<and> attendanceCount u = 20 \<and> attendanceSessionId u = Some 52
        \<and> map actualQuantityDeducted (items u) = [4]"
    unfolding run8
    by (intro exI [of _ ?u8]) (simp add: present)
  have b': "map currentStock
        (inventoryItems (consumeInventoryForMeal 763200000 ''dinner'' 763200000 laterStore))
       = [16, 10]"
    unfolding run8 by (simp add: saveItem_def laterStore_def example_defs)

  \<comment> \<open>nobody present on the evening of day 14, no evening session on day 7\<close>
  note t15 = attendance_source [OF days(3), where st = exampleStore and now = 1321200000]
  note c = t15 [THEN conjunct2, THEN conjunct2, THEN conjunct1,
      unfolded plans option.case sessions go if_True]
  note t7 = attendance_source [OF days(4), where st = exampleStore and now = 716400000]
  note c' = t7 [THEN conjunct2, THEN conjunct2, THEN conjunct1,
      unfolded plans option.case sessions]

  \<comment> \<open>a manual recording for the breakfast of day 1, and one for the breakfast of day 8\<close>
  have fd: "findById exampleStore 1 = Some dhal"
    by (simp add: findById_def example_defs)
  have dl: "rq_inventoryItemId dhalLine = Some 1" "rq_recordedQuantity dhalLine = Some 5"
    "rq_recordedForStudents dhalLine = Some 10" "(10::nat) = 1 \<or> (10::nat) = 10"
    by (simp_all add: dhalLine_def)
  have enough: "\<not> currentStock dhal < quantityToConsume 5 10 25"
    by (simp add: example_quantities dhal_def)
  have checked: "checkItems exampleStore (presentCount eveningOfDay0) [dhalLine] ([], [], [])
                   = ([?line], [(dhal, 25 / 2)], [])"
    unfolding present
    using checkItem_ok [OF dl fd enough, of "[]" "[]" "[]"] by (simp add: example_quantities)
  let ?uM = "\<lparr>date = startOfDay (86400000 + 36000000), mealType = ''breakfast'', items = [?line],
               attendanceCount = presentCount eveningOfDay0,
               attendanceSessionId = Some (session_id eveningOfDay0),
               recordedBy = rq_user (exampleRequest [dhalLine]),
               usageNotes = (case rq_notes (exampleRequest [dhalLine]) of None \<Rightarrow> [] | Some n \<Rightarrow> n)\<rparr>"
  let ?vM = "?uM\<lparr>usageNotes := []\<rparr>"
  let ?sM = "deductAll 126000000 [(dhal, 25 / 2)] exampleStore"
  have "inventoryUsages ?sM = inventoryUsages exampleStore" using deductAll_frame by blast
  then have empty: "inventoryUsages ?sM = []" by (simp add: exampleStore_def)
  have "createUsage ?uM ?sM = Some (?vM, ?sM\<lparr>inventoryUsages := inventoryUsages ?sM @ [?vM]\<rparr>)"
    by (simp add: createUsage_def Let_def validUsage_def validUsageItem_def exampleRequest_def
        trim_def)
  then have createdM: "createUsage ?uM ?sM = Some (?vM, ?sM\<lparr>inventoryUsages := [?vM]\<rparr>)"
    unfolding empty by simp
  have rq: "rq_date (exampleRequest [dhalLine]) = ValidDate (86400000 + 36000000)
            \<and> rq_mealType (exampleRequest [dhalLine]) = Some ''breakfast''
            \<and> rq_items (exampleRequest [dhalLine]) = Some [dhalLine] \<and> [dhalLine] \<noteq> []"
    and rl: "rq_date ?late = ValidDate 691200000 \<and> rq_mealType ?late = Some ''breakfast''
            \<and> rq_items ?late = Some [dhalLine] \<and> [dhalLine] \<noteq> []"
    by (simp_all add: exampleRequest_def)
  note tM = attendance_source [OF days(5), where st = exampleStore and now = 126000000
      and req = "exampleRequest [dhalLine]" and lines = "[dhalLine]" and toLocale = dayNumber,
      THEN conjunct2, THEN conjunct2, THEN conjunct2, THEN conjunct2, THEN mp, OF rq,
      THEN conjunct2, THEN conjunct1,
      unfolded sessions option.case checked prod.case lists if_False createdM]
  have stockM: "map currentStock (inventoryItems (?sM\<lparr>inventoryUsages := [?vM]\<rparr>)) = [15 / 2, 10]"
    by (simp add: deduct_def saveItem_def example_defs example_stocks)
  have fieldsM: "attendanceCount ?vM = 25 \<and> attendanceSessionId ?vM = Some 50
        \<and> map actualQuantityDeducted (items ?vM) = [25 / 2]"
    by (simp add: present)
  have d: "\<exists>u st'. recordInventoryUsage dayNumber 126000000 (exampleRequest [dhalLine]) exampleStore
                 = (Inr u, st')
        \<and> attendanceCount u = 25 \<and> attendanceSessionId u = Some 50
        \<and> map actualQuantityDeducted (items u) = [25 / 2]
        \<and> map currentStock (inventoryItems st') = [15 / 2, 10]"
    using tM fieldsM stockM
    by (intro exI [of _ ?vM] exI [of _ "?sM\<lparr>inventoryUsages := [?vM]\<rparr>"]) blast
  note tL = attendance_source [OF days(4), where st = exampleStore and now = 691200000
      and req = ?late and lines = "[dhalLine]" and toLocale = dayNumber,
      THEN conjunct2, THEN conjunct2, THEN conjunct2, THEN conjunct2, THEN mp, OF rl,
      THEN conjunct2, THEN conjunct1, unfolded sessions option.case]
  from tL have e: "\<exists>m. recordInventoryUsage dayNumber 691200000 ?late exampleStore
            = (Inl (HttpError 404 m), exampleStore)"
    by blast
  show ?thesis by (intro conjI a a' b b' c c' d e)
qed

section \<open>Runs that skip\<close>

text \<open>
  C3. When the attendance lookup of a scheduled run finds no session, or a session with
  nobody present, the run leaves the whole store as it was: no stock is debited, no usage
  record and no notification is created.
\<close>

theorem skip_without_attendance:
  assumes "getAttendanceCount st ''evening'' (attendanceDateFor mt d) = None
         \<or> getAttendanceCount st ''evening'' (attendanceDateFor mt d) = Some 0"
  shows "consumeInventoryForMeal now mt d st = st"
proof (cases "findMealPlan st (dayNames ! getDay d)")
  case None
  then show ?thesis by (simp add: consumeInventoryForMeal_def)
next
  case (Some plan)
  from assms show ?thesis
  proof
    assume "getAttendanceCount st ''evening'' (attendanceDateFor mt d) = None"
    with Some show ?thesis by (simp add: consumeInventoryForMeal_def)
  next
    assume "getAttendanceCount st ''evening'' (attendanceDateFor mt d) = Some 0"
    with Some show ?thesis by (simp add: consumeInventoryForMeal_def)
  qed
qed

theorem skip_without_attendance_witness:
  "findMealPlan exampleStore (dayNames ! getDay (8 * 86400000)) \<noteq> None
   \<and> getAttendanceCount exampleStore ''evening'' (attendanceDateFor ''breakfast'' (8 * 86400000)) = None
   \<and> consumeInventoryForMeal 0 ''breakfast'' (8 * 86400000) exampleStore = exampleStore
   \<and> findMealPlan exampleStore (dayNames ! getDay (15 * 86400000)) \<noteq> None
   \<and> getAttendanceCount exampleStore ''evening'' (attendanceDateFor ''lunch'' (15 * 86400000)) = Some 0
   \<and> consumeInventoryForMeal 0 ''lunch'' (15 * 86400000) exampleStore = exampleStore"
proof -
  have p: "findMealPlan exampleStore (dayNames ! getDay (8 * 86400000)) \<noteq> None"
    "findMealPlan exampleStore (dayNames ! getDay (15 * 86400000)) \<noteq> None"
    by (simp_all add: findMealPlan_def example_defs dayNames_def getDay_def msPerDay_def)
  have a: "getAttendanceCount exampleStore ''evening''
             (attendanceDateFor ''breakfast'' (8 * 86400000)) = None"
    by (simp add: getAttendanceCount_def findSession_def example_defs attendanceDateFor_def
        previousDay_def inDay_def startOfDay_def endOfDay_def msPerDay_def)
  have b: "getAttendanceCount exampleStore ''evening''
             (attendanceDateFor ''lunch'' (15 * 86400000)) = Some 0"
    by (simp add: getAttendanceCount_def findSession_def example_defs attendanceDateFor_def
        previousDay_def inDay_def startOfDay_def endOfDay_def msPerDay_def)
  from p a b skip_without_attendance [OF disjI1 [OF a], of 0]
    skip_without_attendance [OF disjI2 [OF b], of 0]
  show ?thesis by blast
qed

section \<open>A run that partly fails\<close>

text \<open>
  C4. A scheduled run over a plan of two items, where the first item is found with enough
  stock and the second is found, in the store the first debit leaves, with too little:
  the run appends exactly one usage record, for that date and meal, whose only line is the
  first item's, and appends exactly one notification for each user with the role
  \<open>admin\<close>, of type \<open>alert\<close>, whose message contains the second item's name, its
  available stock and the required amount. (The first plan entry is as the schema has it:
  a non-negative quantity, for 1 or 10 students.)
\<close>

theorem partial_failure_recorded:
  assumes plan: "findMealPlan st (dayNames ! getDay d) = Some plan"
    and inventory: "mealInventoryOf plan mt = [first, second]"
    and meal: "mt \<in> set [''breakfast'', ''lunch'', ''dinner'']"
    and schema: "0 \<le> quantity first" "forStudentsOf first = 1 \<or> forStudentsOf first = 10"
    and attendance: "getAttendanceCount st ''evening'' (attendanceDateFor mt d) = Some count" "count \<noteq> 0"
    and admin: "\<exists>u \<in> set (users st). role u = ''admin''"
    and found1: "findById st (inventoryItemId first) = Some itm1"
    and enough1: "\<not> currentStock itm1 < quantityToConsume (quantity first) (forStudentsOf first) count"
    and found2: "findById (fst (consumeItem now mt count first (st, [], []))) (inventoryItemId second)
                   = Some itm2"
    and short2: "currentStock itm2 < quantityToConsume (quantity second) (forStudentsOf second) count"
  shows "(\<exists>u. inventoryUsages (consumeInventoryForMeal now mt d st) = inventoryUsages st @ [u]
              \<and> date u = d \<and> mealType u = mt \<and> attendanceCount u = count
              \<and> items u = [\<lparr>usedItemId = item_id itm1, recordedQuantity = quantity first,
                             recordedForStudents = forStudentsOf first,
                             actualQuantityDeducted =
                               quantityToConsume (quantity first) (forStudentsOf first) count\<rparr>])
       \<and> (\<exists>msg. notifications (consumeInventoryForMeal now mt d st)
                   = notifications st @
                     map (\<lambda>a. \<lparr>recipient = user_id a, type = ''alert'',
                               title = ''Inventory Consumption Error - '' @ mt @ '' (''
                                         @ dayNames ! getDay d @ '')'',
                               message = msg, read = False, createdAt = now\<rparr>)
                         (filter (\<lambda>u. role u = ''admin'') (users st))
                \<and> sublist (name itm2) msg \<and> sublist (toFixed2 (currentStock itm2)) msg
                \<and> sublist (toFixed2 (quantityToConsume (quantity second) (forStudentsOf second) count)) msg)"
proof -
  let ?q1 = "quantityToConsume (quantity first) (forStudentsOf first) count"
  let ?q2 = "quantityToConsume (quantity second) (forStudentsOf second) count"
  let ?line = "\<lparr>usedItemId = item_id itm1, recordedQuantity = quantity first,
                 recordedForStudents = forStudentsOf first, actualQuantityDeducted = ?q1\<rparr>"
  let ?st1 = "saveItem (itm1\<lparr>currentStock := double (currentStock itm1 - ?q1), lastUpdated := now\<rparr>) st"
  let ?e = "mt @ '': '' @ insufficientStock itm2 ?q2 @ '' (Attendance: '' @ showNat count @ '')''"
  from getAttendanceCount_Some [OF attendance(1)] obtain s where
    s: "findSession st ''evening'' (attendanceDateFor mt d) = Some s" "presentCount s = count" by blast
  from find_admin [OF admin] obtain systemUser where
    su: "find (\<lambda>u. role u = ''admin'') (users st) = Some systemUser" by blast
  have step1: "consumeItem now mt count first (st, [], []) = (?st1, [], [?line])"
    using consumeItem_debit [OF found1 enough1, of now mt "[]" "[]"] by simp
  from found2 step1 have found2': "findById ?st1 (inventoryItemId second) = Some itm2" by simp
  have step2: "consumeItem now mt count second (?st1, [], [?line]) = (?st1, [?e], [?line])"
    using consumeItem_short [OF found2' short2, of now mt "[]" "[?line]"] by simp
  have loop: "consumeItems now mt (presentCount s) (mealInventoryOf plan mt) (st, [], [])
                = (?st1, [?e], [?line])"
    unfolding inventory s(2) by (simp add: step1 step2)
  let ?u = "\<lparr>date = d, mealType = mt, items = [?line], attendanceCount = count,
              attendanceSessionId = Some (session_id s), recordedBy = user_id systemUser,
              usageNotes = ''Automated deduction via cron job''\<rparr>"
  have q1: "0 \<le> ?q1" using schema(1) by (rule quantityToConsume_nonneg)
  have valid: "validUsage ?u"
    using meal schema q1 by (simp add: validUsage_def validUsageItem_def)
  have created: "createUsage ?u ?st1 = Some (?u, ?st1\<lparr>inventoryUsages := inventoryUsages ?st1 @ [?u]\<rparr>)"
    using valid by (simp add: createUsage_def cronNotes Let_def)
  let ?st2 = "?st1\<lparr>inventoryUsages := inventoryUsages ?st1 @ [?u]\<rparr>"
  have ne: "mealInventoryOf plan mt \<noteq> []" using inventory by simp
  have "presentCount s \<noteq> 0" using s(2) attendance(2) by simp
  from consume_run [OF plan s(1) this ne su loop]
  have run: "consumeInventoryForMeal now mt d st = notifyAdmins now mt (dayNames ! getDay d) [?e] ?st2"
    using created s(2) by (simp add: Let_def)
  have usages: "inventoryUsages (consumeInventoryForMeal now mt d st) = inventoryUsages st @ [?u]"
    unfolding run notifyAdmins_eq by (simp add: saveItem_frame)
  have admins: "usersWithRole ?st2 [''admin''] = filter (\<lambda>u. role u = ''admin'') (users st)"
    by (simp add: usersWithRole_def saveItem_frame)
  have alerts: "notifications (consumeInventoryForMeal now mt d st)
                 = notifications st @
                   map (\<lambda>a. \<lparr>recipient = user_id a, type = ''alert'',
                             title = ''Inventory Consumption Error - '' @ mt @ '' (''
                                       @ dayNames ! getDay d @ '')'',
                             message = ''Errors: '' @ ?e, read = False, createdAt = now\<rparr>)
                       (filter (\<lambda>u. role u = ''admin'') (users st))"
    unfolding run notifyAdmins_eq admins by (simp add: saveItem_frame)
  have "''Errors: '' @ ?e = (''Errors: '' @ mt @ '': '') @ insufficientStock itm2 ?q2
          @ ('' (Attendance: '' @ showNat count @ '')'')" by simp
  then have "sublist (insufficientStock itm2 ?q2) (''Errors: '' @ ?e)"
    unfolding sublist_def by blast
  with insufficientStock_reports [where itm = itm2 and q = ?q2]
  have reported: "sublist (name itm2) (''Errors: '' @ ?e)"
    "sublist (toFixed2 (currentStock itm2)) (''Errors: '' @ ?e)"
    "sublist (toFixed2 ?q2) (''Errors: '' @ ?e)"
    by (blast intro: sublist_trans')+
  have fields: "date ?u = d \<and> mealType ?u = mt \<and> attendanceCount ?u = count \<and> items ?u = [?line]"
    by simp
  from usages fields have first: "\<exists>u. inventoryUsages (consumeInventoryForMeal now mt d st)
              = inventoryUsages st @ [u]
              \<and> date u = d \<and> mealType u = mt \<and> attendanceCount u = count \<and> items u = [?line]"
    by blast
  from alerts reported first show ?thesis by blast
qed

theorem partial_failure_recorded_witness:
  "(\<exists>u. inventoryUsages (consumeInventoryForMeal (86400000 + 25200000) ''breakfast'' 86400000 exampleStore)
          = [u]
        \<and> date u = 86400000 \<and> mealType u = ''breakfast'' \<and> attendanceCount u = 25
        \<and> items u = [\<lparr>usedItemId = 1, recordedQuantity = 5, recordedForStudents = 10,
                       actualQuantityDeducted = 25 / 2\<rparr>])
   \<and> (\<exists>msg. notifications (consumeInventoryForMeal (86400000 + 25200000) ''breakfast'' 86400000 exampleStore)
            = [\<lparr>recipient = 100, type = ''alert'',
                 title = ''Inventory Consumption Error - breakfast (Friday)'',
                 message = msg, read = False, createdAt = 86400000 + 25200000\<rparr>]
          \<and> sublist ''Rice'' msg \<and> sublist ''10.00'' msg \<and> sublist ''12.50'' msg)"
proof -
  let ?now = "86400000 + 25200000 :: int"
  have plan: "findMealPlan exampleStore (dayNames ! getDay 86400000) = Some fridayPlan"
    by (simp add: findMealPlan_def example_defs dayNames_def getDay_def msPerDay_def)
  have inventory: "mealInventoryOf fridayPlan ''breakfast'' = [dhalItem, riceItem]"
    by (simp add: mealInventoryOf_def fridayPlan_def)
  have meal: "''breakfast'' \<in> set [''breakfast'', ''lunch'', ''dinner'']" by simp
  have fs: "forStudentsOf dhalItem = 10" "forStudentsOf riceItem = 10"
    by (simp_all add: forStudentsOf_def dhalItem_def riceItem_def)
  have schema: "0 \<le> quantity dhalItem" "forStudentsOf dhalItem = 1 \<or> forStudentsOf dhalItem = 10"
    by (simp_all add: fs) (simp add: dhalItem_def)
  have attendance: "getAttendanceCount exampleStore ''evening'' (attendanceDateFor ''breakfast'' 86400000)
                      = Some 25" "(25::nat) \<noteq> 0"
    by (simp_all add: getAttendanceCount_def findSession_def example_defs attendanceDateFor_def
        previousDay_def inDay_def startOfDay_def endOfDay_def msPerDay_def)
  have admin: "\<exists>u \<in> set (users exampleStore). role u = ''admin''"
    by (simp add: exampleStore_def)
  have q: "quantityToConsume (quantity dhalItem) (forStudentsOf dhalItem) 25 = 25 / 2"
    "quantityToConsume (quantity riceItem) (forStudentsOf riceItem) 25 = 25 / 2"
    by (simp_all add: fs) (simp_all add: dhalItem_def riceItem_def example_quantities)
  have found1: "findById exampleStore (inventoryItemId dhalItem) = Some dhal"
    by (simp add: findById_def example_defs)
  have enough1: "\<not> currentStock dhal < quantityToConsume (quantity dhalItem) (forStudentsOf dhalItem) 25"
    unfolding q by (simp add: dhal_def)
  have found2: "findById (fst (consumeItem ?now ''breakfast'' 25 dhalItem (exampleStore, [], [])))
                  (inventoryItemId riceItem) = Some rice"
  proof -
    have "findById exampleStore (inventoryItemId riceItem) = Some rice"
      by (simp add: findById_def example_defs)
    then show ?thesis
      unfolding consumeItem_debit [OF found1 enough1]
      by (simp add: findById_saveItem rice_def dhal_def)
  qed
  have short2: "currentStock rice < quantityToConsume (quantity riceItem) (forStudentsOf riceItem) 25"
    unfolding q by (simp add: rice_def)
  have shown: "name rice = ''Rice''" "toFixed2 (currentStock rice) = ''10.00''"
    "toFixed2 (25 / 2) = ''12.50''" "item_id dhal = 1" "quantity dhalItem = 5"
    "quantity riceItem = 5" "quantityToConsume 5 10 25 = 25 / 2"
    by (simp_all add: rice_def dhal_def dhalItem_def riceItem_def toFixed2_def showNat.simps
        digitChar_def example_quantities)
  have friday: "dayNames ! getDay 86400000 = ''Friday''"
    by (simp add: dayNames_def getDay_def msPerDay_def)
  have before: "inventoryUsages exampleStore = []" "notifications exampleStore = []"
    "filter (\<lambda>u. role u = ''admin'') (users exampleStore) = [\<lparr>user_id = 100, role = ''admin''\<rparr>]"
    by (simp_all add: exampleStore_def)
  note t = partial_failure_recorded [OF plan inventory meal schema attendance admin found1 enough1
      found2 short2, unfolded q fs shown friday before]
  from t show ?thesis by simp
qed

section \<open>Manual recordings that fail after their debits\<close>

text \<open>
  C5. A manual recording is to collect every error of its lines before any stock is
  changed, and to apply its debits and create its usage record only when there is none.
  The handler does not keep this for the two requirements it leaves to the schema of the
  usage record, which is validated by \<open>InventoryUsage.create\<close>, after the debits have
  been saved. A line with the quantity -5 per 10 students passes the item loop with no
  error, for an attendance of 25 its debit of -12.5 kg raises the 20 kg of dhal to
  32.5 kg, and the request then fails at the validation (the quantity is below the
  schema's minimum 0) with no usage record created. A request whose one line is in order
  but whose notes have 501 characters fails in the same way (the schema allows 500),
  after the 20 kg of dhal have been debited to 7.5 kg.
\<close>

theorem unvalidated_request_debits:
  "checkItems exampleStore 25 [negativeLine] ([], [], [])
     = ([\<lparr>usedItemId = 1, recordedQuantity = - 5, recordedForStudents = 10,
          actualQuantityDeducted = - (25 / 2)\<rparr>],
        [(dhal, - (25 / 2))], [])
   \<and> (\<exists>st'. recordInventoryUsage dayNumber (86400000 + 39600000)
               (exampleRequest [negativeLine]) exampleStore = (Inl ValidationError, st')
          \<and> map currentStock (inventoryItems exampleStore) = [20, 10]
          \<and> map currentStock (inventoryItems st') = [65 / 2, 10]
          \<and> inventoryUsages st' = [])
   \<and> length longNotes = 501
   \<and> (\<exists>st'. recordInventoryUsage dayNumber (86400000 + 39600000)
               ((exampleRequest [dhalLine])\<lparr>rq_notes := Some longNotes\<rparr>) exampleStore
             = (Inl ValidationError, st')
          \<and> map currentStock (inventoryItems st') = [15 / 2, 10]
          \<and> inventoryUsages st' = [])"
proof -
  let ?now = "86400000 + 39600000 :: int"
  let ?neg = "\<lparr>usedItemId = 1, recordedQuantity = - 5, recordedForStudents = 10,
                actualQuantityDeducted = - (25 / 2)\<rparr>"
  let ?line = "\<lparr>usedItemId = 1, recordedQuantity = 5, recordedForStudents = 10,
                 actualQuantityDeducted = 25 / 2\<rparr>"
  let ?req = "exampleRequest [negativeLine]"
  let ?long = "(exampleRequest [dhalLine])\<lparr>rq_notes := Some longNotes\<rparr>"
  have fd: "findById exampleStore 1 = Some dhal"
    by (simp add: findById_def example_defs)
  have nl: "rq_inventoryItemId negativeLine = Some 1" "rq_recordedQuantity negativeLine = Some (- 5)"
    "rq_recordedForStudents negativeLine = Some 10" "(10::nat) = 1 \<or> (10::nat) = 10"
    and dl: "rq_inventoryItemId dhalLine = Some 1" "rq_recordedQuantity dhalLine = Some 5"
    "rq_recordedForStudents dhalLine = Some 10" "(10::nat) = 1 \<or> (10::nat) = 10"
    by (simp_all add: negativeLine_def dhalLine_def)
  have passes: "\<not> currentStock dhal < quantityToConsume (- 5) 10 25"
    and enough: "\<not> currentStock dhal < quantityToConsume 5 10 25"
    by (simp_all add: example_quantities dhal_def)
  have checked: "checkItems exampleStore 25 [negativeLine] ([], [], [])
                   = ([?neg], [(dhal, - (25 / 2))], [])"
    using checkItem_ok [OF nl fd passes, of "[]" "[]" "[]"] by (simp add: example_quantities)
  have checked': "checkItems exampleStore 25 [dhalLine] ([], [], []) = ([?line], [(dhal, 25 / 2)], [])"
    using checkItem_ok [OF dl fd enough, of "[]" "[]" "[]"] by (simp add: example_quantities)
  have att: "getAttendanceForDate exampleStore
               (attendanceDateFor ''breakfast'' (startOfDay (86400000 + 36000000))) ''evening'' = Some 25"
    by (simp add: getAttendanceForDate_def findSession_def example_defs attendanceDateFor_def
        previousDay_def inDay_def startOfDay_def endOfDay_def msPerDay_def)
  have r: "rq_date ?req = ValidDate (86400000 + 36000000)" "rq_mealType ?req = Some ''breakfast''"
    "''breakfast'' \<in> set [''breakfast'', ''lunch'', ''dinner'']"
    "rq_items ?req = Some [negativeLine]" "[negativeLine] \<noteq> []"
    and r': "rq_date ?long = ValidDate (86400000 + 36000000)" "rq_mealType ?long = Some ''breakfast''"
    "''breakfast'' \<in> set [''breakfast'', ''lunch'', ''dinner'']"
    "rq_items ?long = Some [dhalLine]" "[dhalLine] \<noteq> []"
    by (simp_all add: exampleRequest_def)
  let ?u = "\<lparr>date = startOfDay (86400000 + 36000000), mealType = ''breakfast'',
              items = [?neg], attendanceCount = 25,
              attendanceSessionId =
                map_option session_id
                  (findSession exampleStore ''evening''
                     (attendanceDateFor ''breakfast'' (startOfDay (86400000 + 36000000)))),
              recordedBy = rq_user ?req,
              usageNotes = (case rq_notes ?req of None \<Rightarrow> [] | Some n \<Rightarrow> n)\<rparr>"
  let ?u' = "\<lparr>date = startOfDay (86400000 + 36000000), mealType = ''breakfast'',
              items = [?line], attendanceCount = 25,
              attendanceSessionId =
                map_option session_id
                  (findSession exampleStore ''evening''
                     (attendanceDateFor ''breakfast'' (startOfDay (86400000 + 36000000)))),
              recordedBy = rq_user ?long,
              usageNotes = (case rq_notes ?long of None \<Rightarrow> [] | Some n \<Rightarrow> n)\<rparr>"
  let ?st1 = "deductAll ?now [(dhal, - (25 / 2))] exampleStore"
  let ?st1' = "deductAll ?now [(dhal, 25 / 2)] exampleStore"
  have refused: "createUsage ?u ?st1 = None"
    by (simp add: createUsage_def validUsage_def validUsageItem_def Let_def)
  have long: "trim longNotes = longNotes" "length longNotes = 501"
    by (simp_all add: longNotes_def trim_def isSpace_def dropWhile_replicate)
  have refused': "createUsage ?u' ?st1' = None"
    by (simp add: createUsage_def validUsage_def Let_def long exampleRequest_def)
  from recordInventoryUsage_checked [OF r att checked, of dayNumber ?now] refused
  have reply: "recordInventoryUsage dayNumber ?now ?req exampleStore = (Inl ValidationError, ?st1)"
    by simp
  from recordInventoryUsage_checked [OF r' att checked', of dayNumber ?now] refused'
  have reply': "recordInventoryUsage dayNumber ?now ?long exampleStore = (Inl ValidationError, ?st1')"
    by simp
  have before: "map currentStock (inventoryItems exampleStore) = [20, 10]"
    by (simp add: example_defs)
  have after: "map currentStock (inventoryItems ?st1) = [65 / 2, 10]"
    and after': "map currentStock (inventoryItems ?st1') = [15 / 2, 10]"
    by (simp_all add: deduct_def saveItem_def example_defs example_stocks)
  have "inventoryUsages ?st1 = inventoryUsages exampleStore"
    "inventoryUsages ?st1' = inventoryUsages exampleStore"
    using deductAll_frame by blast+
  then have none: "inventoryUsages ?st1 = []" and none': "inventoryUsages ?st1' = []"
    by (simp_all add: exampleStore_def)
  have a: "\<exists>st'. recordInventoryUsage dayNumber ?now ?req exampleStore = (Inl ValidationError, st')
          \<and> map currentStock (inventoryItems exampleStore) = [20, 10]
          \<and> map currentStock (inventoryItems st') = [65 / 2, 10]
          \<and> inventoryUsages st' = []"
    by (intro exI [of _ ?st1] conjI reply before after none)
  have b: "\<exists>st'. recordInventoryUsage dayNumber ?now ?long exampleStore = (Inl ValidationError, st')
          \<and> map currentStock (inventoryItems st') = [15 / 2, 10]
          \<and> inventoryUsages st' = []"
    by (intro exI [of _ ?st1'] conjI reply' after' none')
  show ?thesis by (intro conjI checked a long(2) b)
qed

section \<open>The low-stock monitor\<close>

text \<open>
  C6. A second run of the monitor on the same calendar day, with nothing else changed
  in between, changes nothing. A run only appends notifications; those it appends are
  for pairs of recipient and title that differ from each other and for which the store
  held no notification created that day; each is for an item with
  \<open>currentStock \<le> minimumStock\<close> and a user with the role \<open>admin\<close> or \<open>kitchen\<close>,
  titled with the item's name, and its type is \<open>alert\<close> when the item's stock is 0 and
  \<open>warning\<close> otherwise.
\<close>

theorem low_stock_once_a_day:
  "(calendarDay now2 = calendarDay now1 \<longrightarrow>
      checkLowStockItems f2 now2 (checkLowStockItems f1 now1 st) = checkLowStockItems f1 now1 st)
   \<and> (\<exists>new. checkLowStockItems f now st = st\<lparr>notifications := notifications st @ new\<rparr>
          \<and> distinct (map (\<lambda>n. (recipient n, title n)) new)
          \<and> (\<forall>n \<in> set new.
                (\<exists>item \<in> set (inventoryItems st). \<exists>u \<in> set (users st).
                    currentStock item \<le> minimumStock item
                    \<and> (role u = ''admin'' \<or> role u = ''kitchen'')
                    \<and> recipient n = user_id u \<and> title n = ''Low Stock: '' @ name item
                    \<and> type n = (if currentStock item = 0 then ''alert'' else ''warning'')
                    \<and> createdAt n = now \<and> \<not> read n)
                \<and> \<not> coveredBy (startOfDay now) (notifications st) (recipient n, title n)))"
proof (intro conjI impI)
  assume day: "calendarDay now2 = calendarDay now1"
  then have sod: "startOfDay now2 = startOfDay now1" by (simp add: startOfDay_calendarDay)
  let ?low = "filter (\<lambda>item. currentStock item \<le> minimumStock item) (inventoryItems st)"
  let ?us = "usersWithRole st [''admin'', ''kitchen'']"
  show "checkLowStockItems f2 now2 (checkLowStockItems f1 now1 st) = checkLowStockItems f1 now1 st"
  proof (cases "?low = []")
    case True
    then show ?thesis by (simp add: checkLowStockItems_def)
  next
    case False
    from notifyItems_new [of f1 now1 ?low ?us st] obtain new where
      r: "notifyItems f1 now1 ?low ?us st = st\<lparr>notifications := notifications st @ new\<rparr>"
      "\<forall>item \<in> set ?low. \<forall>u \<in> set ?us.
          coveredBy (startOfDay now1) (notifications st @ new) (user_id u, ''Low Stock: '' @ name item)"
      by blast
    let ?st1 = "st\<lparr>notifications := notifications st @ new\<rparr>"
    from False r(1) have first: "checkLowStockItems f1 now1 st = ?st1"
      by (simp add: checkLowStockItems_def)
    have same: "filter (\<lambda>item. currentStock item \<le> minimumStock item) (inventoryItems ?st1) = ?low"
      "usersWithRole ?st1 [''admin'', ''kitchen''] = ?us"
      by (simp_all add: usersWithRole_def)
    from r(2) have "\<forall>item \<in> set ?low. \<forall>u \<in> set ?us.
          coveredBy (startOfDay now2) (notifications ?st1) (user_id u, ''Low Stock: '' @ name item)"
      by (simp add: sod)
    then have "notifyItems f2 now2 ?low ?us ?st1 = ?st1" by (rule notifyItems_covered)
    with False same have "checkLowStockItems f2 now2 ?st1 = ?st1"
      by (simp add: checkLowStockItems_def)
    with first show ?thesis by simp
  qed
next
  let ?low = "filter (\<lambda>item. currentStock item \<le> minimumStock item) (inventoryItems st)"
  let ?us = "usersWithRole st [''admin'', ''kitchen'']"
  show "\<exists>new. checkLowStockItems f now st = st\<lparr>notifications := notifications st @ new\<rparr>
          \<and> distinct (map (\<lambda>n. (recipient n, title n)) new)
          \<and> (\<forall>n \<in> set new.
                (\<exists>item \<in> set (inventoryItems st). \<exists>u \<in> set (users st).
                    currentStock item \<le> minimumStock item
                    \<and> (role u = ''admin'' \<or> role u = ''kitchen'')
                    \<and> recipient n = user_id u \<and> title n = ''Low Stock: '' @ name item
                    \<and> type n = (if currentStock item = 0 then ''alert'' else ''warning'')
                    \<and> createdAt n = now \<and> \<not> read n)
                \<and> \<not> coveredBy (startOfDay now) (notifications st) (recipient n, title n))"
  proof (cases "?low = []")
    case True
    then have "checkLowStockItems f now st = st\<lparr>notifications := notifications st @ []\<rparr>"
      by (simp add: checkLowStockItems_def)
    then show ?thesis by (intro exI [of _ "[]"]) simp
  next
    case False
    from notifyItems_new [of f now ?low ?us st] obtain new where
      r: "notifyItems f now ?low ?us st = st\<lparr>notifications := notifications st @ new\<rparr>"
      "fresh now (notifications st) new"
      "\<forall>n \<in> set new. \<exists>item \<in> set ?low. \<exists>u \<in> set ?us. n = lowStockNotice f now item u"
      by blast
    have each: "(\<exists>item \<in> set (inventoryItems st). \<exists>u \<in> set (users st).
                    currentStock item \<le> minimumStock item
                    \<and> (role u = ''admin'' \<or> role u = ''kitchen'')
                    \<and> recipient n = user_id u \<and> title n = ''Low Stock: '' @ name item
                    \<and> type n = (if currentStock item = 0 then ''alert'' else ''warning'')
                    \<and> createdAt n = now \<and> \<not> read n)
                \<and> \<not> coveredBy (startOfDay now) (notifications st) (recipient n, title n)"
      if n: "n \<in> set new" for n
    proof
      from r(3) n obtain item u where iu: "item \<in> set ?low" "u \<in> set ?us"
        "n = lowStockNotice f now item u" by blast
      from iu(1) have i: "item \<in> set (inventoryItems st)" "currentStock item \<le> minimumStock item"
        by simp_all
      from iu(2) have u: "u \<in> set (users st)" "role u = ''admin'' \<or> role u = ''kitchen''"
        by (simp_all add: usersWithRole_def)
      from i u iu(3) show "\<exists>item \<in> set (inventoryItems st). \<exists>u \<in> set (users st).
                    currentStock item \<le> minimumStock item
                    \<and> (role u = ''admin'' \<or> role u = ''kitchen'')
                    \<and> recipient n = user_id u \<and> title n = ''Low Stock: '' @ name item
                    \<and> type n = (if currentStock item = 0 then ''alert'' else ''warning'')
                    \<and> createdAt n = now \<and> \<not> read n"
        by (intro bexI [of _ item] bexI [of _ u]) (simp_all add: lowStockNotice_key)
      from r(2) n show "\<not> coveredBy (startOfDay now) (notifications st) (recipient n, title n)"
        by (simp add: fresh_def list_all_iff)
    qed
    from r(2) have d: "distinct (map (\<lambda>n. (recipient n, title n)) new)" by (simp add: fresh_def)
    from False r(1) have "checkLowStockItems f now st = st\<lparr>notifications := notifications st @ new\<rparr>"
      by (simp add: checkLowStockItems_def)
    with d each show ?thesis by blast
  qed
qed

theorem low_stock_once_a_day_witness:
  "map (\<lambda>n. (recipient n, title n, type n))
      (notifications (checkLowStockItems toFixed2 (86400000 + 14400000) pantry))
     = [(100, ''Low Stock: Rice'', ''warning''), (101, ''Low Stock: Rice'', ''warning''),
        (100, ''Low Stock: Salt'', ''alert''), (101, ''Low Stock: Salt'', ''alert'')]
   \<and> checkLowStockItems toFixed2 (86400000 + 28800000)
        (checkLowStockItems toFixed2 (86400000 + 14400000) pantry)
       = checkLowStockItems toFixed2 (86400000 + 14400000) pantry"
proof -
  have day: "calendarDay (86400000 + 28800000) = calendarDay (86400000 + 14400000)"
    by (simp add: calendarDay_def msPerDay_def)
  have a: "map (\<lambda>n. (recipient n, title n, type n))
      (notifications (checkLowStockItems toFixed2 (86400000 + 14400000) pantry))
     = [(100, ''Low Stock: Rice'', ''warning''), (101, ''Low Stock: Rice'', ''warning''),
        (100, ''Low Stock: Salt'', ''alert''), (101, ''Low Stock: Salt'', ''alert'')]"
    by (simp add: checkLowStockItems_def pantry_def example_defs salt_def usersWithRole_def
        notifyLowStock_eq coveredBy_def lowStockNotice_key)
  from low_stock_once_a_day [of "86400000 + 28800000" "86400000 + 14400000" toFixed2 toFixed2 pantry,
      THEN conjunct1, THEN mp, OF day] a
  show ?thesis by blast
qed

section \<open>The consumption calculator\<close>

text \<open>
  C7. The quantity to consume is \<open>(actualAttendance / baselineGroupSize) * baseQuantity\<close>
  as JavaScript evaluates it: the quotient is rounded to a double, multiplied by the base
  quantity and rounded to a double again. It is not always the real number that the
  formula denotes: for a base quantity of 50, a group of 10 and an attendance of 11 it is
  \<open>55 + 2^-47\<close> (which prints as 55.00000000000001), above 55.
\<close>

theorem quantityToConsume_inexact:
  "quantityToConsume 50 10 11 = 55 + 1 / 2 ^ 47
   \<and> quantityToConsume 50 10 11 \<noteq> real 11 / real 10 * 50
   \<and> 55 < quantityToConsume 50 10 11"
  by (simp add: quantityToConsume_def double_eval)

text \<open>
  C7, as it holds (for numbers in the range of normal doubles, which is that of the
  model). The quantity is the quotient of attendance and group size, rounded to a double,
  times the base quantity, rounded to a double. For a base quantity that is a
  non-negative double and a positive group size: twice the attendance gives exactly twice
  the quantity; with the attendance equal to the group size the quantity is exactly the
  base quantity; the quantity is not negative; and it differs from the real value of the
  formula by at most that value divided by \<open>2^51\<close>. Nothing else is floored or rounded
  before the stock check: the scheduled job's step and the manual recording's check
  refuse an item exactly when its stock is below this quantity.
\<close>

theorem quantityToConsume_double:
  assumes "0 \<le> baseQuantity" and "double baseQuantity = baseQuantity" and "0 < groupSize"
  shows "quantityToConsume baseQuantity groupSize attendance
           = double (double (real attendance / real groupSize) * baseQuantity)
       \<and> quantityToConsume baseQuantity groupSize (2 * attendance)
           = 2 * quantityToConsume baseQuantity groupSize attendance
       \<and> quantityToConsume baseQuantity groupSize groupSize = baseQuantity
       \<and> 0 \<le> quantityToConsume baseQuantity groupSize attendance
       \<and> \<bar>quantityToConsume baseQuantity groupSize attendance
            - real attendance / real groupSize * baseQuantity\<bar>
           \<le> real attendance / real groupSize * baseQuantity / 2 ^ 51
       \<and> (findById st (inventoryItemId item) = Some itm \<longrightarrow>
            (snd (snd (consumeItem now mt attendance item (st, errors, usageItems))) = usageItems)
              = (currentStock itm < quantityToConsume (quantity item) (forStudentsOf item) attendance))
       \<and> (rq_inventoryItemId line = Some i \<and> rq_recordedQuantity line = Some baseQuantity
            \<and> rq_recordedForStudents line = Some groupSize \<and> (groupSize = 1 \<or> groupSize = 10)
            \<and> findById st i = Some itm \<longrightarrow>
            (fst (checkItem st attendance line (processed, updates, errors)) = processed)
              = (currentStock itm < quantityToConsume baseQuantity groupSize attendance))"
proof (intro conjI impI)
  show "quantityToConsume baseQuantity groupSize attendance
           = double (double (real attendance / real groupSize) * baseQuantity)"
    by (rule quantityToConsume_def)
  have "real (2 * attendance) / real groupSize = 2 * (real attendance / real groupSize)" by simp
  then have "double (real (2 * attendance) / real groupSize) * baseQuantity
               = 2 * (double (real attendance / real groupSize) * baseQuantity)"
    by (simp only: double_twice mult.assoc)
  then show "quantityToConsume baseQuantity groupSize (2 * attendance)
           = 2 * quantityToConsume baseQuantity groupSize attendance"
    unfolding quantityToConsume_def by (simp only: double_twice)
  from assms(3) have "real groupSize / real groupSize = 1" by simp
  then show "quantityToConsume baseQuantity groupSize groupSize = baseQuantity"
    unfolding quantityToConsume_def by (simp add: double_one assms(2))
  show "0 \<le> quantityToConsume baseQuantity groupSize attendance"
    using assms(1) by (rule quantityToConsume_nonneg)
  define r where "r = real attendance / real groupSize"
  define r' where "r' = double r"
  define p where "p = r' * baseQuantity"
  define P where "P = r * baseQuantity"
  define q where "q = double p"
  have r0: "0 \<le> r" unfolding r_def by simp
  with assms(1) have P0: "0 \<le> P" unfolding P_def by simp
  have k: "(2::real) ^ 53 = 9007199254740992" "(2::real) ^ 51 = 2251799813685248" by simp_all
  from double_error [of r] r0 have e1: "\<bar>r' - r\<bar> \<le> r / 9007199254740992"
    unfolding r'_def k by simp
  from r0 have "0 \<le> r'" unfolding r'_def by (rule double_nonneg)
  with assms(1) have p0: "0 \<le> p" unfolding p_def by simp
  have "p - P = (r' - r) * baseQuantity" unfolding p_def P_def by (simp add: algebra_simps)
  then have "\<bar>p - P\<bar> = \<bar>r' - r\<bar> * baseQuantity" using assms(1) by (simp add: abs_mult)
  also have "\<dots> \<le> r / 9007199254740992 * baseQuantity"
    using e1 assms(1) by (rule mult_right_mono)
  also have "\<dots> = P / 9007199254740992" unfolding P_def by simp
  finally have e2: "\<bar>p - P\<bar> \<le> P / 9007199254740992" .
  from double_error [of p] p0 have e3: "\<bar>q - p\<bar> \<le> p / 9007199254740992"
    unfolding q_def k by simp
  from e2 e3 P0 have "\<bar>q - P\<bar> \<le> P / 2251799813685248" by linarith
  then show "\<bar>quantityToConsume baseQuantity groupSize attendance
            - real attendance / real groupSize * baseQuantity\<bar>
           \<le> real attendance / real groupSize * baseQuantity / 2 ^ 51"
    unfolding quantityToConsume_def k q_def p_def P_def r'_def r_def .
next
  assume found: "findById st (inventoryItemId item) = Some itm"
  show "(snd (snd (consumeItem now mt attendance item (st, errors, usageItems))) = usageItems)
          = (currentStock itm < quantityToConsume (quantity item) (forStudentsOf item) attendance)"
  proof (cases "currentStock itm < quantityToConsume (quantity item) (forStudentsOf item) attendance")
    case True
    with consumeItem_short [OF found True] show ?thesis by simp
  next
    case False
    with consumeItem_debit [OF found False] show ?thesis by simp
  qed
next
  assume "rq_inventoryItemId line = Some i \<and> rq_recordedQuantity line = Some baseQuantity
            \<and> rq_recordedForStudents line = Some groupSize \<and> (groupSize = 1 \<or> groupSize = 10)
            \<and> findById st i = Some itm"
  then have l: "rq_inventoryItemId line = Some i" "rq_recordedQuantity line = Some baseQuantity"
    "rq_recordedForStudents line = Some groupSize" "groupSize = 1 \<or> groupSize = 10"
    "findById st i = Some itm" by simp_all
  show "(fst (checkItem st attendance line (processed, updates, errors)) = processed)
          = (currentStock itm < quantityToConsume baseQuantity groupSize attendance)"
  proof (cases "currentStock itm < quantityToConsume baseQuantity groupSize attendance")
    case True
    with checkItem_short [OF l True] show ?thesis by simp
  next
    case False
    with checkItem_ok [OF l False] show ?thesis by simp
  qed
qed

theorem quantityToConsume_double_witness:
  "quantityToConsume 50 10 11 = 55 + 1 / 2 ^ 47
   \<and> quantityToConsume 5 10 50 = 2 * quantityToConsume 5 10 25
   \<and> quantityToConsume 5 10 10 = 5
   \<and> 0 \<le> quantityToConsume 5 10 25
   \<and> \<bar>quantityToConsume 50 10 11 - 55\<bar> \<le> 55 / 2 ^ 51
   \<and> snd (snd (consumeItem 7 ''breakfast'' 25 riceItem (exampleStore, [], []))) = []
   \<and> fst (checkItem exampleStore 25 dhalLine ([], [], [])) \<noteq> []"
proof -
  have h: "(0::real) \<le> 5" "double 5 = 5" "(0::nat) < 10"
    and h': "(0::real) \<le> 50" "double 50 = 50"
    by (simp_all add: double_eval)
  have fr: "findById exampleStore (inventoryItemId riceItem) = Some rice"
    and fd: "findById exampleStore 1 = Some dhal"
    by (simp_all add: findById_def example_defs)
  have dl: "rq_inventoryItemId dhalLine = Some 1 \<and> rq_recordedQuantity dhalLine = Some 5
            \<and> rq_recordedForStudents dhalLine = Some 10 \<and> ((10::nat) = 1 \<or> (10::nat) = 10)
            \<and> findById exampleStore 1 = Some dhal"
    using fd by (simp add: dhalLine_def)
  note t = quantityToConsume_double [OF h, of 25 exampleStore riceItem rice 7 "''breakfast''" "[]" "[]"
      dhalLine 1]
  from quantityToConsume_double [OF h' h(3), of 11, THEN conjunct1]
  have x: "quantityToConsume 50 10 11 = 55 + 1 / 2 ^ 47" by (simp add: double_eval)
  from t have a: "quantityToConsume 5 10 (2 * 25) = 2 * quantityToConsume 5 10 25" by blast
  from t have c: "quantityToConsume 5 10 10 = 5" by blast
  from t have n: "0 \<le> quantityToConsume 5 10 25" by blast
  from quantityToConsume_double [OF h' h(3), of 11, THEN conjunct2, THEN conjunct2, THEN conjunct2,
      THEN conjunct2, THEN conjunct1]
  have b: "\<bar>quantityToConsume 50 10 11 - 55\<bar> \<le> 55 / 2 ^ 51" by simp
  have short: "currentStock rice < quantityToConsume (quantity riceItem) (forStudentsOf riceItem) 25"
    by (simp add: rice_def riceItem_def forStudentsOf_def example_quantities)
  from t [THEN conjunct2, THEN conjunct2, THEN conjunct2, THEN conjunct2, THEN conjunct2,
      THEN conjunct1, THEN mp, OF fr]
    short
  have d: "snd (snd (consumeItem 7 ''breakfast'' 25 riceItem (exampleStore, [], []))) = []" by simp
  have enough: "\<not> currentStock dhal < quantityToConsume 5 10 25"
    by (simp add: dhal_def example_quantities)
  note t2 = quantityToConsume_double [OF h, of 25 exampleStore riceItem dhal 7 "''breakfast''" "[]" "[]"
      dhalLine 1 "[]" "[]", THEN conjunct2, THEN conjunct2, THEN conjunct2, THEN conjunct2,
      THEN conjunct2, THEN conjunct2, THEN mp, OF dl]
  from t2 enough have e: "fst (checkItem exampleStore 25 dhalLine ([], [], [])) \<noteq> []" by simp
  from a have a': "quantityToConsume 5 10 50 = 2 * quantityToConsume 5 10 25" by simp
  show ?thesis by (intro conjI x a' c n b d e)
qed

section \<open>Attendance sessions\<close>

text \<open>
  C8. When the store already holds a session of the requested type whose \<open>markedAt\<close>
  falls on the calendar day of the request's date, creating an attendance session is
  rejected and the store, the existing session with it, stays as it was; for a request
  that carries records and a session type \<open>morning\<close> or \<open>evening\<close> the rejection
  is the conflict 409, raised before any record or session is created.
\<close>

theorem duplicate_session_conflict:
  assumes "sq_sessionType req = Some ty"
    and "attendanceDateOf now (sq_date req) = Some a"
    and "s \<in> set (attendanceSessions st)" and "sessionType s = ty"
    and "markedAt s = Some t" and "calendarDay t = calendarDay a"
  shows "(\<exists>e. createAttendanceSession toLocale now req st = (Inl e, st))
       \<and> (ty \<in> set [''morning'', ''evening''] \<and> sq_records req \<noteq> None \<longrightarrow>
            (\<exists>m. createAttendanceSession toLocale now req st = (Inl (HttpError 409 m), st)))"
proof -
  from assms(5,6) have "inDay a (markedAt s)" by (simp add: inDay_iff_calendarDay)
  from findSession_exists [OF assms(3,4) this] obtain x where x: "findSession st ty a = Some x" ..
  show ?thesis
  proof (cases "sq_records req")
    case None
    with assms(1) show ?thesis by (simp add: createAttendanceSession_def)
  next
    case (Some records)
    show ?thesis
    proof (cases "ty \<in> set [''morning'', ''evening'']")
      case False
      with assms(1) Some show ?thesis by (simp add: createAttendanceSession_def)
    next
      case True
      then have "ty \<noteq> []" by auto
      with True assms(1,2) Some x show ?thesis by (simp add: createAttendanceSession_def)
    qed
  qed
qed


theorem duplicate_session_conflict_witness:
  "\<exists>m. createAttendanceSession dayNumber (86400000 + 32400000)
          (morningRequest\<lparr>sq_sessionType := Some ''evening'', sq_date := ValidDate 5000\<rparr>) exampleStore
        = (Inl (HttpError 409 m), exampleStore)"
proof -
  let ?req = "morningRequest\<lparr>sq_sessionType := Some ''evening'', sq_date := ValidDate 5000\<rparr>"
  have ty: "sq_sessionType ?req = Some ''evening''" by simp
  have a: "attendanceDateOf (86400000 + 32400000) (sq_date ?req) = Some 0"
    by (simp add: attendanceDateOf_def startOfDay_def msPerDay_def)
  have s: "eveningOfDay0 \<in> set (attendanceSessions exampleStore)" by (simp add: exampleStore_def)
  have e: "sessionType eveningOfDay0 = ''evening''" and m: "markedAt eveningOfDay0 = Some 0"
    by (simp_all add: eveningOfDay0_def)
  have c: "calendarDay 0 = calendarDay 0" ..
  have v: "''evening'' \<in> set [''morning'', ''evening''] \<and> sq_records ?req \<noteq> None"
    by (simp add: morningRequest_def)
  from duplicate_session_conflict [OF ty a s e m c, of dayNumber, THEN conjunct2, THEN mp, OF v]
  show ?thesis .
qed

text \<open>
  C9. A session that \<open>createAttendanceSession\<close> creates is stored with counts computed
  from the submitted records: the total is their number, the present count the number
  of records with status \<open>present\<close>, the absent count the number of all others, so
  present and absent add up to the total.
\<close>

theorem session_counts:
  assumes "createAttendanceSession toLocale now req st = (Inr session, st')"
  shows "\<exists>records. sq_records req = Some records
           \<and> totalStudents session = length records
           \<and> presentCount session = length (filter (\<lambda>r. in_status r = ''present'') records)
           \<and> absentCount session = length (filter (\<lambda>r. in_status r \<noteq> ''present'') records)
           \<and> presentCount session + absentCount session = totalStudents session
           \<and> session \<in> set (attendanceSessions st')"
proof (cases "sq_sessionType req")
  case None
  with assms show ?thesis by (simp add: createAttendanceSession_def)
next
  case ty: (Some ty)
  show ?thesis
  proof (cases "sq_records req")
    case None
    with assms ty show ?thesis by (simp add: createAttendanceSession_def)
  next
    case records: (Some records)
    show ?thesis
    proof (cases "ty \<in> set [''morning'', ''evening'']")
      case False
      with ty records have "\<exists>e. createAttendanceSession toLocale now req st = (Inl e, st)"
        by (simp add: createAttendanceSession_def)
      with assms show ?thesis by auto
    next
      case valid: True
      then have ne: "ty \<noteq> []" by auto
      show ?thesis
      proof (cases "attendanceDateOf now (sq_date req)")
        case None
        with ty records valid ne have "\<exists>e. createAttendanceSession toLocale now req st = (Inl e, st)"
          by (simp add: createAttendanceSession_def)
        with assms show ?thesis by auto
      next
        case date: (Some attendanceDate)
        show ?thesis
        proof (cases "findSession st ty attendanceDate")
          case (Some existing)
          with ty records valid ne date
          have "\<exists>e. createAttendanceSession toLocale now req st = (Inl e, st)"
            by (simp add: createAttendanceSession_def)
          with assms show ?thesis by auto
        next
          case None
          obtain st1 bad ids p a where
            m: "markRecords records (st, [], [], 0, 0) = (st1, bad, ids, p, a)"
            by (cases "markRecords records (st, [], [], 0, 0)") auto
          note run = createAttendanceSession_valid [OF ty valid records date None m, of toLocale]
          show ?thesis
          proof (cases "bad = []")
            case False
            with run assms show ?thesis by simp
          next
            case True
            let ?session = "\<lparr>session_id = nextId st1, sessionType = ty, attendanceRecords = ids,
                         totalStudents = length records, presentCount = p, absentCount = a,
                         markedBy = ru_id (sq_user req), markedAt = Some attendanceDate,
                         session_notes = (case sq_notes req of None \<Rightarrow> [] | Some n \<Rightarrow> n),
                         isCompleted = False\<rparr>"
            let ?st2 = "st1\<lparr>attendanceSessions := attendanceSessions st1 @ [?session],
                                nextId := Suc (nextId st1)\<rparr>"
            from run True assms have res: "session = ?session"
              and "\<exists>ids ttl msg. st' = sendNotifications now ids ttl msg ''info'' ?st2"
              by (auto simp add: Let_def)
            then obtain us ttl msg where st': "st' = sendNotifications now us ttl msg ''info'' ?st2"
              by blast
            from markRecords_counts [OF m] True
            have counts: "p = length (filter (\<lambda>r. in_status r = ''present'') records)"
              "a = length (filter (\<lambda>r. in_status r \<noteq> ''present'') records)" by simp_all
            have total: "length (filter (\<lambda>r. in_status r = ''present'') records)
                   + length (filter (\<lambda>r. in_status r \<noteq> ''present'') records) = length records"
              by (rule sum_length_filter_compl)
            have stored: "session \<in> set (attendanceSessions st')"
              unfolding st' res sendNotifications_def foldl_createNotification by simp
            from res counts total stored records show ?thesis by simp
          qed
        qed
      qed
    qed
  qed
qed

theorem session_counts_witness:
  "\<exists>session st'. createAttendanceSession dayNumber (86400000 + 32400000) morningRequest exampleStore
                    = (Inr session, st')
      \<and> totalStudents session = 3 \<and> presentCount session = 2 \<and> absentCount session = 1"
proof -
  let ?records = "[\<lparr>in_student = 200, in_status = ''present'', in_remarks = None\<rparr>,
              \<lparr>in_student = 201, in_status = ''absent'', in_remarks = Some ''sick''\<rparr>,
              \<lparr>in_student = 202, in_status = ''present'', in_remarks = None\<rparr>]"
  have ty: "sq_sessionType morningRequest = Some ''morning''"
    and records: "sq_records morningRequest = Some ?records"
    by (simp_all add: morningRequest_def)
  have valid: "''morning'' \<in> set [''morning'', ''evening'']" by simp
  have date: "attendanceDateOf (86400000 + 32400000) (sq_date morningRequest) = Some 86400000"
    by (simp add: attendanceDateOf_def morningRequest_def startOfDay_def msPerDay_def)
  have none: "findSession exampleStore ''morning'' 86400000 = None"
    by (simp add: findSession_def example_defs)
  obtain st1 bad ids p a where
    m: "markRecords ?records (exampleStore, [], [], 0, 0) = (st1, bad, ids, p, a)"
    by (cases "markRecords ?records (exampleStore, [], [], 0, 0)") auto
  have "fst (snd (markRecords ?records (exampleStore, [], [], 0, 0))) = []"
    by (simp add: markRecord_step exampleStore_def)
  with m have bad: "bad = []" by simp
  from createAttendanceSession_valid [OF ty valid records date none m, of dayNumber] bad
  obtain session st' where
    run: "createAttendanceSession dayNumber (86400000 + 32400000) morningRequest exampleStore
            = (Inr session, st')"
    by (simp add: Let_def)
  from session_counts [OF run] records
  have "totalStudents session = 3 \<and> presentCount session = 2 \<and> absentCount session = 1"
    by auto
  with run show ?thesis by blast
qed

text \<open>
  C10. When the store has no user with the role \<open>admin\<close>, a scheduled run leaves the
  whole store as it was, whatever plan and attendance exist: it debits nothing and
  creates neither a usage record nor a notification.
\<close>

theorem skip_without_admin:
  assumes "\<forall>u \<in> set (users st). role u \<noteq> ''admin''"
  shows "consumeInventoryForMeal now mt d st = st"
proof -
  have "find (\<lambda>u. role u = ''admin'') (users st) = None"
    using assms by (simp add: find_None_iff)
  then show ?thesis
    by (simp add: consumeInventoryForMeal_def Let_def split: option.splits)
qed

theorem skip_without_admin_witness:
  "findMealPlan (exampleStore\<lparr>users := [\<lparr>user_id = 101, role = ''kitchen''\<rparr>]\<rparr>)
      (dayNames ! getDay 86400000) \<noteq> None
   \<and> getAttendanceCount (exampleStore\<lparr>users := [\<lparr>user_id = 101, role = ''kitchen''\<rparr>]\<rparr>)
        ''evening'' (attendanceDateFor ''breakfast'' 86400000) = Some 25
   \<and> consumeInventoryForMeal 0 ''breakfast'' 86400000
        (exampleStore\<lparr>users := [\<lparr>user_id = 101, role = ''kitchen''\<rparr>]\<rparr>)
      = exampleStore\<lparr>users := [\<lparr>user_id = 101, role = ''kitchen''\<rparr>]\<rparr>"
proof -
  let ?st = "exampleStore\<lparr>users := [\<lparr>user_id = 101, role = ''kitchen''\<rparr>]\<rparr>"
  have p: "findMealPlan ?st (dayNames ! getDay 86400000) \<noteq> None"
    by (simp add: findMealPlan_def example_defs dayNames_def getDay_def msPerDay_def)
  have a: "getAttendanceCount ?st ''evening'' (attendanceDateFor ''breakfast'' 86400000) = Some 25"
    by (simp add: getAttendanceCount_def findSession_def example_defs attendanceDateFor_def
        previousDay_def inDay_def startOfDay_def endOfDay_def msPerDay_def)
  have h: "\<forall>u \<in> set (users ?st). role u \<noteq> ''admin''"
    by simp
  from p a skip_without_admin [OF h, of 0 "''breakfast''" 86400000]
  show ?thesis by blast
qed

end
